theory Spec2Isabelle
  imports Main
begin

section \<open>The transliteration server (xlit_server.py)\<close>

text \<open>
  A Python \<open>str\<close> is a sequence of code points, modelled as a list of natural numbers
  (each below \<open>0x110000\<close>; a \<open>str\<close> may hold surrogate code points): slicing and
  \<open>strip\<close> count code points. \<open>str\<close> turns a HOL string literal into such a list. The
  transliteration engine and the Redis client are external to the module; the engine is a
  parameter of every handler and the Redis server is part of the state the handlers pass
  along.
\<close>

type_synonym pystr = "nat list"

definition str :: "string \<Rightarrow> pystr" where
  "str s = map of_char s"

definition is_surrogate :: "nat \<Rightarrow> bool" where
  "is_surrogate c = (0xD800 \<le> c \<and> c \<le> 0xDFFF)"

text \<open>
  \<open>s.encode("utf-8")\<close> raises \<open>UnicodeEncodeError\<close> exactly when \<open>s\<close> holds a surrogate.
  \<open>unicode_text\<close> says that a list is a \<open>str\<close> with no surrogate in it.
\<close>

definition utf8_encodable :: "pystr \<Rightarrow> bool" where
  "utf8_encodable s = list_all (\<lambda>c. \<not> is_surrogate c) s"

definition unicode_text :: "pystr \<Rightarrow> bool" where
  "unicode_text s = list_all (\<lambda>c. c < 0x110000 \<and> \<not> is_surrogate c) s"

subsection \<open>Errors\<close>

datatype XlitError = lang_err | string_err | internal_err | unknown_err | loading_err

fun XlitError_value :: "XlitError \<Rightarrow> pystr" where
  "XlitError_value lang_err =
     str ''Unsupported langauge ID requested ;( Please check available languages.''"
| "XlitError_value string_err = str ''String passed is incompatable ;(''"
| "XlitError_value internal_err = str ''Internal crash ;(''"
| "XlitError_value unknown_err = str ''Unknown Failure''"
| "XlitError_value loading_err =
     str ''Loading failed ;( Check if metadata/paths are correctly configured.''"

text \<open>
  The exceptions that leave a handler: the one an engine call raises, the ones Python
  raises when a returned \<open>XlitError\<close> or an empty list is indexed or encoded, the one
  \<open>encode\<close> raises on a surrogate, and the one the Redis client raises when the server
  cannot be reached.
\<close>

datatype py_exception =
    EngineException | TypeError | AttributeError | IndexError | UnicodeEncodeError
  | ConnectionError

subsection \<open>The engine\<close>

text \<open>
  An engine call raises, returns an \<open>XlitError\<close> member, or returns its value.
  \<open>langs_str\<close> is \<open>str(all_supported_langs)\<close>.
\<close>

datatype 'a engine_result = Raises | Returns_error XlitError | Returns 'a

record XlitEngine =
  all_supported_langs :: "pystr list"
  langs_str :: pystr
  translit_word :: "pystr \<Rightarrow> pystr \<Rightarrow> int \<Rightarrow> bool option \<Rightarrow> pystr list engine_result"
  translit_sentence :: "pystr \<Rightarrow> pystr \<Rightarrow> pystr engine_result"

record ENGINE =
  en2indic :: XlitEngine
  indic2en :: XlitEngine

datatype direction = En2indic | Indic2en

fun engine_of :: "ENGINE \<Rightarrow> direction \<Rightarrow> XlitEngine" where
  "engine_of E En2indic = en2indic E"
| "engine_of E Indic2en = indic2en E"

definition MAX_SUGGESTIONS :: int where
  "MAX_SUGGESTIONS = 8"

definition DEFAULT_NUM_SUGGESTIONS :: int where
  "DEFAULT_NUM_SUGGESTIONS = 5"

subsection \<open>The state: the Redis server and the record of external calls\<close>

text \<open>
  \<open>kv\<close> is the content of the Redis server: under each key (the ASCII text that
  \<open>json.dumps\<close> returns, a HOL string) the text whose UTF-8 encoding is stored, so that
  \<open>value.decode("utf-8")\<close> gives it back (stored bytes that are not UTF-8 are not
  modelled).
  \<open>get_down\<close> and \<open>set_down\<close> say whether a \<open>get\<close> or a \<open>set\<close> raises, and \<open>calls\<close> records
  every call made to the engine and to Redis, in order.
\<close>

datatype call =
    Translit_word direction pystr pystr int "bool option"
  | Translit_sentence direction pystr pystr
  | Redis_get string
  | Redis_set string pystr

record world =
  kv :: "string \<rightharpoonup> pystr"
  get_down :: bool
  set_down :: bool
  calls :: "call list"

definition redis_get :: "world \<Rightarrow> string \<Rightarrow> world \<times> (py_exception + pystr option)" where
  "redis_get w k =
     (w\<lparr>calls := calls w @ [Redis_get k]\<rparr>,
      if get_down w then Inl ConnectionError else Inr (kv w k))"

definition redis_set :: "world \<Rightarrow> string \<Rightarrow> pystr \<Rightarrow> world \<times> (py_exception + unit)" where
  "redis_set w k v =
     (if set_down w then (w\<lparr>calls := calls w @ [Redis_set k v]\<rparr>, Inl ConnectionError)
      else (w\<lparr>kv := (kv w)(k \<mapsto> v), calls := calls w @ [Redis_set k v]\<rparr>, Inr ()))"

definition call_translit_word ::
  "ENGINE \<Rightarrow> direction \<Rightarrow> world \<Rightarrow> pystr \<Rightarrow> pystr \<Rightarrow> int \<Rightarrow> bool option
     \<Rightarrow> world \<times> pystr list engine_result" where
  "call_translit_word E d w word lang_code topk numerals =
     (w\<lparr>calls := calls w @ [Translit_word d word lang_code topk numerals]\<rparr>,
      translit_word (engine_of E d) word lang_code topk numerals)"

definition call_translit_sentence ::
  "ENGINE \<Rightarrow> direction \<Rightarrow> world \<Rightarrow> pystr \<Rightarrow> pystr \<Rightarrow> world \<times> pystr engine_result" where
  "call_translit_sentence E d w sentence lang_code =
     (w\<lparr>calls := calls w @ [Translit_sentence d sentence lang_code]\<rparr>,
      translit_sentence (engine_of E d) sentence lang_code)"

subsection \<open>Strings: strip and json.dumps\<close>

text \<open>The code points that \<open>str.strip\<close> removes from both ends.\<close>

definition py_isspace :: "nat \<Rightarrow> bool" where
  "py_isspace c =
     ((9 \<le> c \<and> c \<le> 13) \<or> (28 \<le> c \<and> c \<le> 32) \<or> c = 0x85 \<or> c = 0xA0 \<or> c = 0x1680
      \<or> (0x2000 \<le> c \<and> c \<le> 0x200A) \<or> c = 0x2028 \<or> c = 0x2029 \<or> c = 0x202F
      \<or> c = 0x205F \<or> c = 0x3000)"

definition strip :: "pystr \<Rightarrow> pystr" where
  "strip s = rev (dropWhile py_isspace (rev (dropWhile py_isspace s)))"

definition quote :: char where
  "quote = CHR 0x22"

definition backslash :: char where
  "backslash = CHR 0x5C"

definition hexdigit :: "nat \<Rightarrow> char" where
  "hexdigit d = ''0123456789abcdef'' ! d"

definition u_escape :: "nat \<Rightarrow> string" where
  "u_escape n =
     [backslash, CHR ''u'', hexdigit (n div 4096 mod 16), hexdigit (n div 256 mod 16),
      hexdigit (n div 16 mod 16), hexdigit (n mod 16)]"

text \<open>
  The escaping of \<open>json.dumps\<close> with its default \<open>ensure_ascii\<close>: backslash, the quote and
  every code point outside the range from space to tilde are replaced, a code point from
  \<open>0x10000\<close> on by the escapes of its two surrogates (\<open>0xd800 | ((n >> 10) & 0x3ff)\<close> and
  \<open>0xdc00 | (n & 0x3ff)\<close> for \<open>n\<close> the code point minus \<open>0x10000\<close>; the bits do not
  overlap, so each \<open>|\<close> is a sum).
\<close>

definition escape_char :: "nat \<Rightarrow> string" where
  "escape_char c =
     (if c = 0x5C then [backslash, backslash]
      else if c = 0x22 then [backslash, quote]
      else if c = 0x08 then [backslash, CHR ''b'']
      else if c = 0x0C then [backslash, CHR ''f'']
      else if c = 0x0A then [backslash, CHR ''n'']
      else if c = 0x0D then [backslash, CHR ''r'']
      else if c = 0x09 then [backslash, CHR ''t'']
      else if 32 \<le> c \<and> c \<le> 126 then [char_of c]
      else if c < 0x10000 then u_escape c
      else u_escape (0xD800 + (c - 0x10000) div 1024 mod 1024)
             @ u_escape (0xDC00 + (c - 0x10000) mod 1024))"

definition encode_basestring_ascii :: "pystr \<Rightarrow> string" where
  "encode_basestring_ascii s = quote # concat (map escape_char s) @ [quote]"

fun join :: "string \<Rightarrow> string list \<Rightarrow> string" where
  "join sep [] = []"
| "join sep [x] = x"
| "join sep (x # y # ys) = x @ sep @ join sep (y # ys)"

definition json_dumps :: "pystr list \<Rightarrow> string" where
  "json_dumps xs = ''['' @ join '', '' (map encode_basestring_ascii xs) @ '']''"

text \<open>
  Reading one escape back, and the 16-bit units a \<open>str\<close> is escaped through, for the proof
  that the key determines its three fields when they hold no surrogate.
\<close>

definition unhex :: "char \<Rightarrow> nat" where
  "unhex c = (if (of_char c :: nat) < 58 then of_char c - 48 else of_char c - 87)"

fun decode1 :: "string \<Rightarrow> (nat \<times> string) option" where
  "decode1 [] = None"
| "decode1 (a # r) =
     (if a \<noteq> backslash then Some (of_char a, r)
      else case r of
        [] \<Rightarrow> None
      | x # r' \<Rightarrow>
          if x = backslash then Some (0x5C, r')
          else if x = quote then Some (0x22, r')
          else if x = CHR ''b'' then Some (0x08, r')
          else if x = CHR ''f'' then Some (0x0C, r')
          else if x = CHR ''n'' then Some (0x0A, r')
          else if x = CHR ''r'' then Some (0x0D, r')
          else if x = CHR ''t'' then Some (0x09, r')
          else if x = CHR ''u'' then
            (case r' of
               h1 # h2 # h3 # h4 # r'' \<Rightarrow>
                 Some (unhex h1 * 4096 + unhex h2 * 256 + unhex h3 * 16 + unhex h4, r'')
             | _ \<Rightarrow> None)
          else None)"

definition to_units :: "nat \<Rightarrow> nat list" where
  "to_units c =
     (if c < 0x10000 then [c]
      else [0xD800 + (c - 0x10000) div 1024 mod 1024, 0xDC00 + (c - 0x10000) mod 1024])"

definition units :: "pystr \<Rightarrow> nat list" where
  "units s = concat (map to_units s)"

subsection \<open>GET /tl/<lang_code>/<eng_word> and GET /rtl/<lang_code>/<word>\<close>

datatype json_result = Str pystr | Strs "pystr list"

record envelope =
  success :: bool
  error :: pystr
  at :: pystr
  input :: pystr
  result :: json_result

text \<open>
  \<open>now\<close> is \<open>str(datetime.utcnow())\<close>; \<open>ns_arg\<close> is the query argument
  \<open>num_suggestions\<close> read as an integer, \<open>None\<close> when it is absent or is not one;
  \<open>transliterate_numerals\<close> is the flag as read from the query. Both handlers answer
  with \<open>jsonify(response)\<close>, status 200. The definitions are the bodies of the handlers:
  the limiter that decorates them (\<open>5/second\<close>, keyed by the remote address) is an
  object of the flask_limiter library and runs before the body; the batch handler has no
  such decorator.
\<close>

definition xlit_api ::
  "ENGINE \<Rightarrow> pystr \<Rightarrow> world \<Rightarrow> pystr \<Rightarrow> pystr \<Rightarrow> int option \<Rightarrow> bool
     \<Rightarrow> world \<times> nat \<times> envelope" where
  "xlit_api E now w lang_code eng_word ns_arg transliterate_numerals =
     (let response = \<lparr>success = False, error = [], at = now @ str '' +0000 UTC'',
                       input = strip eng_word, result = Str []\<rparr>;
          num_suggestions = (case ns_arg of None \<Rightarrow> DEFAULT_NUM_SUGGESTIONS | Some n \<Rightarrow> n)
      in if lang_code \<notin> set (all_supported_langs (en2indic E)) then
           (w, 200, response\<lparr>error :=
              str ''Invalid scheme identifier. Supported languages are: '' @ langs_str (en2indic E)\<rparr>)
         else
           (case call_translit_word E En2indic w (take 70 eng_word) lang_code num_suggestions
                   (Some transliterate_numerals) of
              (w', r) \<Rightarrow>
                (case (case r of Raises \<Rightarrow> Returns_error internal_err | _ \<Rightarrow> r) of
                   Returns xlit_result \<Rightarrow>
                     (w', 200, response\<lparr>result := Strs xlit_result, success := True\<rparr>)
                 | Returns_error e \<Rightarrow> (w', 200, response\<lparr>error := XlitError_value e\<rparr>)
                 | Raises \<Rightarrow> (w', 200, response\<lparr>error := XlitError_value internal_err\<rparr>))))"

definition reverse_xlit_api ::
  "ENGINE \<Rightarrow> pystr \<Rightarrow> world \<Rightarrow> pystr \<Rightarrow> pystr \<Rightarrow> int option \<Rightarrow> world \<times> nat \<times> envelope" where
  "reverse_xlit_api E now w lang_code word ns_arg =
     (let response = \<lparr>success = False, error = [], at = now @ str '' +0000 UTC'',
                       input = strip word, result = Str []\<rparr>
      in if lang_code \<notin> set (all_supported_langs (indic2en E)) then
           (w, 200, response\<lparr>error :=
              str ''Invalid scheme identifier. Supported languages are: '' @ langs_str (indic2en E)\<rparr>)
         else
           (let num_suggestions =
                  (case ns_arg of None \<Rightarrow> DEFAULT_NUM_SUGGESTIONS | Some n \<Rightarrow> n)
            in case call_translit_word E Indic2en w (take 70 word) lang_code num_suggestions None of
                 (w', r) \<Rightarrow>
                   (case (case r of Raises \<Rightarrow> Returns_error internal_err | _ \<Rightarrow> r) of
                      Returns xlit_result \<Rightarrow>
                        (w', 200, response\<lparr>result := Strs xlit_result, success := True\<rparr>)
                    | Returns_error e \<Rightarrow> (w', 200, response\<lparr>error := XlitError_value e\<rparr>)
                    | Raises \<Rightarrow> (w', 200, response\<lparr>error := XlitError_value internal_err\<rparr>))))"

subsection \<open>POST /transliterate\<close>

text \<open>
  The JSON body, with the two fields the handler tests for and the optional fields of
  \<open>config\<close>; an item carries its \<open>source\<close> and, once processed, its \<open>target\<close>. The
  handler either returns a status code with a body or lets an exception out.
\<close>

record item =
  source :: pystr
  target :: "pystr list option"

record language =
  sourceLanguage :: pystr
  targetLanguage :: pystr

record config =
  language :: language
  isSentence :: "bool option"
  numSuggestions :: "int option"

record ulca_data =
  data_input :: "item list option"
  data_config :: "config option"

datatype ulca_body = Status nat pystr | Output "item list"

definition lang_pair_supported :: "ENGINE \<Rightarrow> config \<Rightarrow> bool" where
  "lang_pair_supported E cfg =
     ((sourceLanguage (language cfg) = str ''en''
        \<and> targetLanguage (language cfg) \<in> set (all_supported_langs (en2indic E)))
      \<or> (sourceLanguage (language cfg) \<in> set (all_supported_langs (indic2en E))
        \<and> targetLanguage (language cfg) = str ''en''))"

definition is_sentence :: "config \<Rightarrow> bool" where
  "is_sentence cfg = (case isSentence cfg of Some b \<Rightarrow> b | None \<Rightarrow> False)"

definition num_suggestions :: "config \<Rightarrow> int" where
  "num_suggestions cfg =
     (if is_sentence cfg then 1
      else (case numSuggestions cfg of Some n \<Rightarrow> n | None \<Rightarrow> 5))"

definition engine :: "config \<Rightarrow> direction" where
  "engine cfg = (if targetLanguage (language cfg) = str ''en'' then Indic2en else En2indic)"

definition lang_code :: "config \<Rightarrow> pystr" where
  "lang_code cfg =
     (if targetLanguage (language cfg) = str ''en'' then sourceLanguage (language cfg)
      else targetLanguage (language cfg))"

definition cache_key :: "pystr \<Rightarrow> pystr \<Rightarrow> pystr \<Rightarrow> string" where
  "cache_key text sl tgl = json_dumps [text, sl, tgl]"

text \<open>
  The body of the loop over \<open>data["input"]\<close>, for one item. The argument
  \<open>item["target"][0].encode("utf-8")\<close> is evaluated before \<open>r.set\<close> is called.
\<close>

definition ulca_item :: "ENGINE \<Rightarrow> config \<Rightarrow> world \<Rightarrow> item \<Rightarrow> world \<times> (py_exception + item)" where
  "ulca_item E cfg w it =
     (let key = cache_key (source it) (sourceLanguage (language cfg))
                  (targetLanguage (language cfg))
      in case redis_get w key of
           (w1, Inl e) \<Rightarrow> (w1, Inl e)
         | (w1, Inr (Some v)) \<Rightarrow> (w1, Inr (it\<lparr>target := Some [v]\<rparr>))
         | (w1, Inr None) \<Rightarrow>
             if is_sentence cfg then
               (case call_translit_sentence E (engine cfg) w1 (source it) (lang_code cfg) of
                  (w2, Raises) \<Rightarrow> (w2, Inl EngineException)
                | (w2, Returns_error e) \<Rightarrow> (w2, Inl AttributeError)
                | (w2, Returns s) \<Rightarrow>
                    if \<not> utf8_encodable s then (w2, Inl UnicodeEncodeError)
                    else
                      (case redis_set w2 key s of
                         (w3, Inl e) \<Rightarrow> (w3, Inl e)
                       | (w3, Inr u) \<Rightarrow> (w3, Inr (it\<lparr>target := Some [s]\<rparr>))))
             else
               (let src = take 32 (source it)
                in case call_translit_word E (engine cfg) w1 src (lang_code cfg)
                          (num_suggestions cfg) None of
                     (w2, Raises) \<Rightarrow> (w2, Inl EngineException)
                   | (w2, Returns_error e) \<Rightarrow> (w2, Inl TypeError)
                   | (w2, Returns []) \<Rightarrow> (w2, Inl IndexError)
                   | (w2, Returns (c # cs)) \<Rightarrow>
                       if \<not> utf8_encodable c then (w2, Inl UnicodeEncodeError)
                       else
                         (case redis_set w2 key c of
                            (w3, Inl e) \<Rightarrow> (w3, Inl e)
                          | (w3, Inr u) \<Rightarrow>
                              (w3, Inr (it\<lparr>source := src, target := Some (c # cs)\<rparr>)))))"

fun ulca_loop :: "ENGINE \<Rightarrow> config \<Rightarrow> world \<Rightarrow> item list \<Rightarrow> world \<times> (py_exception + item list)" where
  "ulca_loop E cfg w [] = (w, Inr [])"
| "ulca_loop E cfg w (it # items) =
     (case ulca_item E cfg w it of
        (w1, Inl e) \<Rightarrow> (w1, Inl e)
      | (w1, Inr it') \<Rightarrow>
          (case ulca_loop E cfg w1 items of
             (w2, Inl e) \<Rightarrow> (w2, Inl e)
           | (w2, Inr out) \<Rightarrow> (w2, Inr (it' # out))))"

definition ulca_api :: "ENGINE \<Rightarrow> world \<Rightarrow> ulca_data \<Rightarrow> world \<times> (py_exception + nat \<times> ulca_body)" where
  "ulca_api E w data =
     (case (data_input data, data_config data) of
        (Some items, Some cfg) \<Rightarrow>
          if lang_pair_supported E cfg then
            (case ulca_loop E cfg w items of
               (w', Inl e) \<Rightarrow> (w', Inl e)
             | (w', Inr out) \<Rightarrow> (w', Inr (200, Output out)))
          else
            (w, Inr (501, Status 501 (str ''The mentioned language-pair is not supported yet.'')))
      | _ \<Rightarrow> (w, Inr (400, Status 400 (str ''Ensure `input` and `config` fields missing.''))))"

subsection \<open>Reading the record of calls\<close>

fun is_redis_call :: "call \<Rightarrow> bool" where
  "is_redis_call (Redis_get k) = True"
| "is_redis_call (Redis_set k v) = True"
| "is_redis_call (Translit_word d word lc topk numerals) = False"
| "is_redis_call (Translit_sentence d sentence lc) = False"

definition redis_calls :: "world \<Rightarrow> call list" where
  "redis_calls w = filter is_redis_call (calls w)"

definition engine_calls :: "world \<Rightarrow> call list" where
  "engine_calls w = filter (\<lambda>c. \<not> is_redis_call c) (calls w)"

text \<open>
  Whether the engine call made for a batch item on a cache miss returns a value that the
  handler can index and encode.
\<close>

definition engine_succeeds :: "ENGINE \<Rightarrow> config \<Rightarrow> item \<Rightarrow> bool" where
  "engine_succeeds E cfg it =
     (if is_sentence cfg then
        (case translit_sentence (engine_of E (engine cfg)) (source it) (lang_code cfg) of
           Returns s \<Rightarrow> utf8_encodable s | _ \<Rightarrow> False)
      else
        (case translit_word (engine_of E (engine cfg)) (take 32 (source it)) (lang_code cfg)
                (num_suggestions cfg) None of
           Returns (c # cs) \<Rightarrow> utf8_encodable c | _ \<Rightarrow> False))"

subsection \<open>Concrete engines, states and requests\<close>

text \<open>
  An engine that raises on the word \<open>boom\<close>, returns an \<open>XlitError\<close> on the word \<open>bad\<close>
  and otherwise returns up to \<open>topk\<close> of three candidates; an engine that raises on every
  call; and an empty Redis server that answers.
\<close>

definition demo_engine :: XlitEngine where
  "demo_engine =
     \<lparr>all_supported_langs = [str ''hi'', str ''ta''],
      langs_str = str ''[hi, ta]'',
      translit_word = (\<lambda>word lc topk numerals.
        if word = str ''boom'' then Raises
        else if word = str ''bad'' then Returns_error internal_err
        else Returns (take (nat topk) [word @ str ''1'', word @ str ''2'', word @ str ''3''])),
      translit_sentence = (\<lambda>sentence lc.
        if sentence = str ''boom'' then Raises else Returns (sentence @ str ''.''))\<rparr>"

definition down_engine :: XlitEngine where
  "down_engine =
     \<lparr>all_supported_langs = [str ''hi'', str ''ta''],
      langs_str = str ''[hi, ta]'',
      translit_word = (\<lambda>word lc topk numerals. Raises),
      translit_sentence = (\<lambda>sentence lc. Raises)\<rparr>"

definition demo_ENGINE :: ENGINE where
  "demo_ENGINE = \<lparr>en2indic = demo_engine, indic2en = demo_engine\<rparr>"

definition down_ENGINE :: ENGINE where
  "down_ENGINE = \<lparr>en2indic = down_engine, indic2en = down_engine\<rparr>"

definition empty_world :: world where
  "empty_world = \<lparr>kv = Map.empty, get_down = False, set_down = False, calls = []\<rparr>"

definition en_hi :: language where
  "en_hi = \<lparr>sourceLanguage = str ''en'', targetLanguage = str ''hi''\<rparr>"

definition hi_en :: language where
  "hi_en = \<lparr>sourceLanguage = str ''hi'', targetLanguage = str ''en''\<rparr>"

definition word_config :: "int option \<Rightarrow> config" where
  "word_config k = \<lparr>language = en_hi, isSentence = None, numSuggestions = k\<rparr>"

definition sentence_config :: config where
  "sentence_config = \<lparr>language = en_hi, isSentence = Some True, numSuggestions = None\<rparr>"

definition reverse_word_config :: config where
  "reverse_word_config = \<lparr>language = hi_en, isSentence = None, numSuggestions = None\<rparr>"

definition mk_item :: "pystr \<Rightarrow> item" where
  "mk_item s = \<lparr>source = s, target = None\<rparr>"

definition batch :: "pystr list \<Rightarrow> config \<Rightarrow> ulca_data" where
  "batch srcs cfg = \<lparr>data_input = Some (map mk_item srcs), data_config = Some cfg\<rparr>"

definition long_source :: pystr where
  "long_source = str ''aaaaaaaaaabbbbbbbbbbccccccccccddddddddddeeeeeeeeee''"



abbreviation item_key :: "config \<Rightarrow> item \<Rightarrow> string" where
  "item_key cfg it \<equiv>
     cache_key (source it) (sourceLanguage (language cfg)) (targetLanguage (language cfg))"

section \<open>Strings and the cache key\<close>

lemma str_eq_iff [simp]: "str a = str b \<longleftrightarrow> a = b"
proof -
  have "inj (of_char :: char \<Rightarrow> nat)"
    by (rule injI) simp
  then show ?thesis
    by (simp add: str_def inj_map_eq_map)
qed

lemma str_append [simp]: "str a @ str b = str (a @ b)"
  by (simp add: str_def)

lemma take_str [simp]: "take n (str s) = str (take n s)"
  by (simp add: str_def take_map)

lemma length_str [simp]: "length (str s) = length s"
  by (simp add: str_def)

lemma of_char_small: "(of_char c :: nat) < 256"
  by simp

lemma of_char_not_surrogate: "\<not> is_surrogate (of_char c)"
proof -
  have "(of_char c :: nat) < 256" by (rule of_char_small)
  then have "(of_char c :: nat) < 0xD800" by linarith
  then show ?thesis unfolding is_surrogate_def by linarith
qed

lemma of_char_code_point: "(of_char c :: nat) < 0x110000"
proof -
  have "(of_char c :: nat) < 256" by (rule of_char_small)
  then show ?thesis by linarith
qed

lemma utf8_encodable_str [simp]: "utf8_encodable (str s)"
  by (simp add: utf8_encodable_def str_def list_all_iff of_char_not_surrogate)

lemma unicode_text_str [simp]: "unicode_text (str s)"
  by (simp add: unicode_text_def str_def list_all_iff of_char_not_surrogate of_char_code_point)

lemma utf8_encodable_append [simp]:
  "utf8_encodable (a @ b) \<longleftrightarrow> utf8_encodable a \<and> utf8_encodable b"
  by (simp add: utf8_encodable_def)

lemma unhex_hexdigit: "d < 16 \<Longrightarrow> unhex (hexdigit d) = d"
proof -
  assume "d < 16"
  then have "d \<in> {0, 1, 2, 3, 4, 5, 6, 7, 8, 9, 10, 11, 12, 13, 14, 15}"
    by simp arith
  then show ?thesis
    by (auto simp: hexdigit_def unhex_def)
qed

lemma digits_split:
  fixes n :: nat
  assumes "n < 0x10000"
  shows "n div 4096 mod 16 * 4096 + n div 256 mod 16 * 256 + n div 16 mod 16 * 16 + n mod 16 = n"
proof -
  define a where "a = n div 16"
  define b where "b = a div 16"
  define c where "c = b div 16"
  have n: "n = 16 * a + n mod 16" unfolding a_def by simp
  have a: "a = 16 * b + a mod 16" unfolding b_def by simp
  have b: "b = 16 * c + b mod 16" unfolding c_def by simp
  have b256: "n div 256 = b" unfolding b_def a_def by (simp add: div_mult2_eq)
  have c4096: "n div 4096 = c" unfolding c_def b_def a_def by (simp add: div_mult2_eq)
  have "c < 16" using assms unfolding c4096 [symmetric] by simp
  then have c: "c mod 16 = c" by simp
  have "c * 4096 + b mod 16 * 256 + a mod 16 * 16 + n mod 16 = n"
    using n a b by linarith
  then show ?thesis
    unfolding b256 c4096 c a_def [symmetric] .
qed

lemma decode1_u_escape: "n < 0x10000 \<Longrightarrow> decode1 (u_escape n @ X) = Some (n, X)"
  using digits_split [of n] by (simp add: u_escape_def unhex_hexdigit backslash_def quote_def)

lemma decode1_printable:
  assumes "32 \<le> c" "c \<le> 126" "c \<noteq> 0x5C"
  shows "decode1 (char_of c # X) = Some (c, X)"
proof -
  have c: "of_char (char_of c) = c"
    using assms by simp
  have "char_of c \<noteq> backslash"
  proof
    assume "char_of c = backslash"
    then have "(of_char (char_of c) :: nat) = of_char backslash" by simp
    with c assms(3) show False by (simp add: backslash_def)
  qed
  with c show ?thesis by simp
qed

lemma decode1_short:
  "decode1 ([backslash, backslash] @ X) = Some (0x5C, X)"
  "decode1 ([backslash, quote] @ X) = Some (0x22, X)"
  "decode1 ([backslash, CHR ''b''] @ X) = Some (0x08, X)"
  "decode1 ([backslash, CHR ''f''] @ X) = Some (0x0C, X)"
  "decode1 ([backslash, CHR ''n''] @ X) = Some (0x0A, X)"
  "decode1 ([backslash, CHR ''r''] @ X) = Some (0x0D, X)"
  "decode1 ([backslash, CHR ''t''] @ X) = Some (0x09, X)"
  by (simp_all add: backslash_def quote_def)

lemma decode1_escape_char:
  assumes "u < 0x10000"
  shows "decode1 (escape_char u @ X) = Some (u, X)"
proof -
  consider "u = 0x5C" | "u = 0x22" | "u = 0x08" | "u = 0x0C" | "u = 0x0A" | "u = 0x0D"
    | "u = 0x09"
    | "u \<noteq> 0x5C" "u \<noteq> 0x22" "32 \<le> u" "u \<le> 126"
    | "u \<noteq> 0x08" "u \<noteq> 0x0C" "u \<noteq> 0x0A" "u \<noteq> 0x0D" "u \<noteq> 0x09" "\<not> (32 \<le> u \<and> u \<le> 126)"
    by linarith
  then show ?thesis
  proof cases
    case 8
    then have e: "escape_char u @ X = char_of u # X"
      by (simp add: escape_char_def)
    show ?thesis
      unfolding e using 8 by (intro decode1_printable)
  next
    case 9
    then have "escape_char u = u_escape u"
      using assms by (auto simp: escape_char_def)
    with assms show ?thesis by (simp add: decode1_u_escape)
  qed (simp_all add: escape_char_def decode1_short [simplified])
qed

lemma to_units_small: "u \<in> set (to_units c) \<Longrightarrow> u < 0x10000"
proof -
  have "(c - 0x10000) div 1024 mod 1024 < 1024" "(c - 0x10000) mod 1024 < 1024"
    by simp_all
  then show "u \<in> set (to_units c) \<Longrightarrow> u < 0x10000"
    unfolding to_units_def by (auto split: if_splits)
qed

lemma units_small: "u \<in> set (units s) \<Longrightarrow> u < 0x10000"
  by (auto simp: units_def dest: to_units_small)

lemma escape_char_high_unit: "0xD800 \<le> u \<Longrightarrow> u < 0x10000 \<Longrightarrow> escape_char u = u_escape u"
  by (simp add: escape_char_def)

lemma escape_char_to_units: "concat (map escape_char (to_units c)) = escape_char c"
proof (cases "c < 0x10000")
  case True
  then show ?thesis by (simp add: to_units_def)
next
  case False
  let ?h = "0xD800 + (c - 0x10000) div 1024 mod 1024" and ?l = "0xDC00 + (c - 0x10000) mod 1024"
  have "(c - 0x10000) div 1024 mod 1024 < 1024" "(c - 0x10000) mod 1024 < 1024"
    by simp_all
  then have h: "0xD800 \<le> ?h" "?h < 0x10000" and l: "0xD800 \<le> ?l" "?l < 0x10000"
    by linarith+
  have "escape_char c = u_escape ?h @ u_escape ?l"
    using False by (simp add: escape_char_def)
  with False escape_char_high_unit [OF h] escape_char_high_unit [OF l] show ?thesis
    by (simp add: to_units_def)
qed

lemma escape_units: "concat (map escape_char (units s)) = concat (map escape_char s)"
  by (induction s) (simp_all add: units_def escape_char_to_units)

lemma escape_char_not_quote:
  assumes "u < 0x10000"
  shows "escape_char u @ X \<noteq> quote # Y"
proof
  assume eq: "escape_char u @ X = quote # Y"
  then have "decode1 (escape_char u @ X) = decode1 (quote # Y)" by simp
  then have "u = 0x22"
    using assms by (simp add: decode1_escape_char backslash_def quote_def)
  with eq show False by (simp add: escape_char_def backslash_def quote_def)
qed

lemma escape_char_prefix_free:
  assumes "u < 0x10000" "u' < 0x10000" "escape_char u @ X = escape_char u' @ Y"
  shows "u = u' \<and> X = Y"
proof -
  from assms(3) have "decode1 (escape_char u @ X) = decode1 (escape_char u' @ Y)" by simp
  with assms(1,2) show ?thesis by (simp add: decode1_escape_char)
qed

lemma escaped_terminated_inj:
  "\<forall>u \<in> set us. u < 0x10000 \<Longrightarrow> \<forall>u \<in> set us'. u < 0x10000 \<Longrightarrow>
   concat (map escape_char us) @ quote # r = concat (map escape_char us') @ quote # r' \<Longrightarrow>
   us = us' \<and> r = r'"
proof (induction us arbitrary: us')
  case Nil
  show ?case
  proof (cases us')
    case Nil
    with Nil.prems show ?thesis by simp
  next
    case (Cons c t)
    with Nil.prems have "c < 0x10000"
      and "escape_char c @ (concat (map escape_char t) @ quote # r') = quote # r"
      by simp_all
    then show ?thesis using escape_char_not_quote by blast
  qed
next
  case (Cons c t)
  from Cons.prems(1) have c: "c < 0x10000" and t: "\<forall>u \<in> set t. u < 0x10000" by simp_all
  show ?case
  proof (cases us')
    case Nil
    with Cons.prems have "escape_char c @ (concat (map escape_char t) @ quote # r) = quote # r'"
      by simp
    then show ?thesis using escape_char_not_quote [OF c] by blast
  next
    case (Cons c' t')
    with Cons.prems(2) have c': "c' < 0x10000" and t': "\<forall>u \<in> set t'. u < 0x10000"
      by simp_all
    from Cons Cons.prems(3) have "escape_char c @ (concat (map escape_char t) @ quote # r) =
        escape_char c' @ (concat (map escape_char t') @ quote # r')"
      by simp
    from escape_char_prefix_free [OF c c' this]
    have "c = c'" and "concat (map escape_char t) @ quote # r =
        concat (map escape_char t') @ quote # r'"
      by simp_all
    with Cons.IH [OF t t'] Cons show ?thesis by simp
  qed
qed

lemma pair_determines:
  fixes n m :: nat
  assumes "n < 0x100000" "m < 0x100000"
    and "n div 1024 mod 1024 = m div 1024 mod 1024" "n mod 1024 = m mod 1024"
  shows "n = m"
proof -
  have "n div 1024 < 1024" "m div 1024 < 1024"
    using assms(1,2) by simp_all
  with assms(3) have "n div 1024 = m div 1024" by simp
  then have "1024 * (n div 1024) + n mod 1024 = 1024 * (m div 1024) + m mod 1024"
    using assms(4) by simp
  then show ?thesis by simp
qed

lemma to_units_prefix_free:
  assumes c: "c < 0x110000" "\<not> is_surrogate c" and c': "c' < 0x110000" "\<not> is_surrogate c'"
    and eq: "to_units c @ X = to_units c' @ Y"
  shows "c = c' \<and> X = Y"
proof -
  have hi: "is_surrogate (0xD800 + k mod 1024)" for k :: nat
  proof -
    have "k mod 1024 < 1024" by simp
    then show ?thesis unfolding is_surrogate_def by linarith
  qed
  show ?thesis
  proof (cases "c < 0x10000")
    case True
    show ?thesis
    proof (cases "c' < 0x10000")
      case True
      with \<open>c < 0x10000\<close> eq show ?thesis by (simp add: to_units_def)
    next
      case False
      with True eq have "c = 0xD800 + (c' - 0x10000) div 1024 mod 1024"
        by (simp add: to_units_def)
      with hi [of "(c' - 0x10000) div 1024"] c(2) show ?thesis by simp
    qed
  next
    case False
    show ?thesis
    proof (cases "c' < 0x10000")
      case True
      with False eq have "c' = 0xD800 + (c - 0x10000) div 1024 mod 1024"
        by (simp add: to_units_def)
      with hi [of "(c - 0x10000) div 1024"] c'(2) show ?thesis by simp
    next
      case c'big: False
      from False c'big eq
      have "(c - 0x10000) div 1024 mod 1024 = (c' - 0x10000) div 1024 mod 1024"
        and "(c - 0x10000) mod 1024 = (c' - 0x10000) mod 1024" and "X = Y"
        by (simp_all add: to_units_def)
      moreover have "c - 0x10000 < 0x100000" "c' - 0x10000 < 0x100000"
        using c(1) c'(1) by linarith+
      ultimately have "c - 0x10000 = c' - 0x10000"
        using pair_determines by blast
      with False c'big \<open>X = Y\<close> show ?thesis by linarith
    qed
  qed
qed

lemma to_units_not_Nil: "to_units c \<noteq> []"
  by (simp add: to_units_def)

lemma units_inj:
  "unicode_text s \<Longrightarrow> unicode_text s' \<Longrightarrow> units s = units s' \<Longrightarrow> s = s'"
proof (induction s arbitrary: s')
  case Nil
  then show ?case
    by (cases s') (simp_all add: units_def to_units_not_Nil)
next
  case (Cons c t)
  show ?case
  proof (cases s')
    case Nil
    with Cons.prems show ?thesis by (simp add: units_def to_units_not_Nil)
  next
    case (Cons c' t')
    from Cons.prems(1) have c: "c < 0x110000" "\<not> is_surrogate c" and t: "unicode_text t"
      by (simp_all add: unicode_text_def)
    from Cons.prems(2) Cons have c': "c' < 0x110000" "\<not> is_surrogate c'"
      and t': "unicode_text t'"
      by (simp_all add: unicode_text_def)
    from Cons.prems(3) Cons have "to_units c @ units t = to_units c' @ units t'"
      by (simp add: units_def)
    from to_units_prefix_free [OF c c' this] have "c = c'" "units t = units t'"
      by simp_all
    with Cons.IH [OF t t'] Cons show ?thesis by simp
  qed
qed

lemma encoded_terminated_inj:
  assumes "unicode_text s" "unicode_text s'"
    and "concat (map escape_char s) @ quote # r = concat (map escape_char s') @ quote # r'"
  shows "s = s' \<and> r = r'"
proof -
  from assms(3) have "concat (map escape_char (units s)) @ quote # r =
      concat (map escape_char (units s')) @ quote # r'"
    by (simp add: escape_units)
  with escaped_terminated_inj [of "units s" "units s'" r r'] units_small
  have "units s = units s'" "r = r'"
    by blast+
  with units_inj [OF assms(1,2)] show ?thesis by simp
qed

lemma cache_key_inj:
  assumes "unicode_text a" "unicode_text b" "unicode_text c"
    and "unicode_text a'" "unicode_text b'" "unicode_text c'"
  shows "cache_key a b c = cache_key a' b' c' \<longleftrightarrow> a = a' \<and> b = b' \<and> c = c'"
proof
  assume "cache_key a b c = cache_key a' b' c'"
  then have 1: "concat (map escape_char a) @ quote #
        ('', '' @ quote # concat (map escape_char b) @ quote #
          ('', '' @ quote # concat (map escape_char c) @ quote # '']'')) =
      concat (map escape_char a') @ quote #
        ('', '' @ quote # concat (map escape_char b') @ quote #
          ('', '' @ quote # concat (map escape_char c') @ quote # '']''))"
    by (simp add: cache_key_def json_dumps_def encode_basestring_ascii_def)
  from encoded_terminated_inj [OF assms(1,4) 1] have a: "a = a'"
    and 2: "concat (map escape_char b) @ quote #
          ('', '' @ quote # concat (map escape_char c) @ quote # '']'') =
        concat (map escape_char b') @ quote #
          ('', '' @ quote # concat (map escape_char c') @ quote # '']'')"
    by simp_all
  from encoded_terminated_inj [OF assms(2,5) 2] have b: "b = b'"
    and 3: "concat (map escape_char c) @ quote # '']'' =
        concat (map escape_char c') @ quote # '']''"
    by simp_all
  from encoded_terminated_inj [OF assms(3,6) 3] a b show "a = a' \<and> b = b' \<and> c = c'"
    by simp
next
  assume "a = a' \<and> b = b' \<and> c = c'"
  then show "cache_key a b c = cache_key a' b' c'" by simp
qed


lemmas eval_defs = ulca_api_def ulca_item_def redis_get_def redis_set_def call_translit_word_def
  call_translit_sentence_def batch_def mk_item_def word_config_def sentence_config_def en_hi_def
  demo_ENGINE_def demo_engine_def down_ENGINE_def down_engine_def empty_world_def
  lang_pair_supported_def is_sentence_def num_suggestions_def engine_def lang_code_def
  hi_en_def reverse_word_config_def cache_key_inj Let_def

lemma strip_amma: "strip (str ''amma'') = str ''amma''"
  by (simp add: strip_def str_def py_isspace_def)

lemma strip_boom: "strip (str ''boom'') = str ''boom''"
  by (simp add: strip_def str_def py_isspace_def)

section \<open>The loop body of the batch handler\<close>

lemma ulca_item_get_down:
  "get_down w \<Longrightarrow>
   ulca_item E cfg w it =
     (w\<lparr>calls := calls w @
        [Redis_get (item_key cfg it)]\<rparr>, Inl ConnectionError)"
  by (simp add: ulca_item_def redis_get_def Let_def)

lemma ulca_item_hit:
  "\<not> get_down w \<Longrightarrow>
   kv w (item_key cfg it)
     = Some v \<Longrightarrow>
   ulca_item E cfg w it =
     (w\<lparr>calls := calls w @
        [Redis_get (item_key cfg it)]\<rparr>, Inr (it\<lparr>target := Some [v]\<rparr>))"
  by (simp add: ulca_item_def redis_get_def Let_def)

lemma ulca_item_miss_word:
  "\<not> get_down w \<Longrightarrow> \<not> is_sentence cfg \<Longrightarrow>
   kv w (item_key cfg it)
     = None \<Longrightarrow>
   translit_word (engine_of E (engine cfg)) (take 32 (source it)) (lang_code cfg)
     (num_suggestions cfg) None = Returns (c # cs) \<Longrightarrow>
   \<not> set_down w \<Longrightarrow> utf8_encodable c \<Longrightarrow>
   ulca_item E cfg w it =
     (w\<lparr>kv := (kv w)(item_key cfg it \<mapsto> c),
        calls := calls w @
        [Redis_get (item_key cfg it),
         Translit_word (engine cfg) (take 32 (source it)) (lang_code cfg)
           (num_suggestions cfg) None,
         Redis_set (item_key cfg it) c]\<rparr>,
      Inr (it\<lparr>source := take 32 (source it), target := Some (c # cs)\<rparr>))"
  by (simp add: ulca_item_def redis_get_def redis_set_def call_translit_word_def Let_def)

lemma ulca_item_miss_sentence:
  "\<not> get_down w \<Longrightarrow> is_sentence cfg \<Longrightarrow>
   kv w (item_key cfg it)
     = None \<Longrightarrow>
   translit_sentence (engine_of E (engine cfg)) (source it) (lang_code cfg) = Returns s \<Longrightarrow>
   \<not> set_down w \<Longrightarrow> utf8_encodable s \<Longrightarrow>
   ulca_item E cfg w it =
     (w\<lparr>kv := (kv w)(item_key cfg it \<mapsto> s),
        calls := calls w @
        [Redis_get (item_key cfg it),
         Translit_sentence (engine cfg) (source it) (lang_code cfg),
         Redis_set (item_key cfg it) s]\<rparr>,
      Inr (it\<lparr>target := Some [s]\<rparr>))"
  by (simp add: ulca_item_def redis_get_def redis_set_def call_translit_sentence_def Let_def)

lemma ulca_item_flags:
  "ulca_item E cfg w it = (w', r) \<Longrightarrow> get_down w' = get_down w \<and> set_down w' = set_down w"
  by (auto simp: ulca_item_def redis_get_def redis_set_def call_translit_word_def
      call_translit_sentence_def Let_def
      split: if_splits option.splits engine_result.splits list.splits)

lemma ulca_item_kv_mono:
  "ulca_item E cfg w it = (w', r) \<Longrightarrow> kv w \<subseteq>\<^sub>m kv w'"
  by (auto simp: ulca_item_def redis_get_def redis_set_def call_translit_word_def
      call_translit_sentence_def Let_def map_le_def
      split: if_splits option.splits engine_result.splits list.splits)

lemma ulca_item_success_caches:
  "ulca_item E cfg w it = (w', Inr it') \<Longrightarrow> \<not> get_down w \<Longrightarrow>
   \<exists>c cs. target it' = Some (c # cs) \<and>
     kv w' (item_key cfg it) = Some c"
  by (auto simp: ulca_item_def redis_get_def redis_set_def call_translit_word_def
      call_translit_sentence_def Let_def
      split: if_splits option.splits engine_result.splits list.splits)

lemma ulca_item_first_call:
  "\<exists>rest. calls (fst (ulca_item E cfg w it)) =
     calls w @ Redis_get (item_key cfg it) # rest"
  by (auto simp: ulca_item_def redis_get_def redis_set_def call_translit_word_def
      call_translit_sentence_def Let_def
      split: if_splits option.splits engine_result.splits list.splits)

section \<open>The loop of the batch handler\<close>

lemma ulca_loop_flags:
  "ulca_loop E cfg w items = (w', r) \<Longrightarrow> get_down w' = get_down w \<and> set_down w' = set_down w"
proof (induction items arbitrary: w w' r)
  case Nil
  then show ?case by simp
next
  case (Cons it items)
  obtain w1 r1 where one: "ulca_item E cfg w it = (w1, r1)"
    by (cases "ulca_item E cfg w it")
  obtain w2 r2 where rest: "ulca_loop E cfg w1 items = (w2, r2)"
    by (cases "ulca_loop E cfg w1 items")
  from Cons.prems one rest have "w' = w1 \<or> w' = w2"
    by (auto split: sum.splits)
  with ulca_item_flags [OF one] Cons.IH [OF rest] show ?case
    by auto
qed

lemma ulca_loop_kv_mono:
  "ulca_loop E cfg w items = (w', r) \<Longrightarrow> kv w \<subseteq>\<^sub>m kv w'"
proof (induction items arbitrary: w w' r)
  case Nil
  then show ?case by simp
next
  case (Cons it items)
  obtain w1 r1 where one: "ulca_item E cfg w it = (w1, r1)"
    by (cases "ulca_item E cfg w it")
  obtain w2 r2 where rest: "ulca_loop E cfg w1 items = (w2, r2)"
    by (cases "ulca_loop E cfg w1 items")
  from Cons.prems one rest have "w' = w1 \<or> w' = w2"
    by (auto split: sum.splits)
  with ulca_item_kv_mono [OF one] Cons.IH [OF rest] show ?case
    by (auto intro: map_le_trans)
qed

lemma ulca_loop_length:
  "ulca_loop E cfg w items = (w', Inr out) \<Longrightarrow> length out = length items"
  by (induction items arbitrary: w w' out) (auto split: prod.splits sum.splits)

lemma ulca_loop_Cons_Inr:
  assumes "ulca_loop E cfg w (it # items) = (w', Inr out)"
  obtains w1 it' out' where "ulca_item E cfg w it = (w1, Inr it')"
    and "ulca_loop E cfg w1 items = (w', Inr out')" and "out = it' # out'"
  using assms by (auto split: prod.splits sum.splits)

lemma ulca_loop_caches:
  "ulca_loop E cfg w items = (w', Inr out) \<Longrightarrow> \<not> get_down w \<Longrightarrow> i < length items \<Longrightarrow>
   \<exists>c cs. target (out ! i) = Some (c # cs) \<and> kv w' (item_key cfg (items ! i)) = Some c"
proof (induction items arbitrary: w w' out i)
  case Nil
  then show ?case by simp
next
  case (Cons it items)
  from Cons.prems(1) obtain w1 it' out' where one: "ulca_item E cfg w it = (w1, Inr it')"
    and rest: "ulca_loop E cfg w1 items = (w', Inr out')" and out: "out = it' # out'"
    by (rule ulca_loop_Cons_Inr)
  have up: "\<not> get_down w1"
    using ulca_item_flags [OF one] Cons.prems(2) by simp
  show ?case
  proof (cases i)
    case 0
    from ulca_item_success_caches [OF one Cons.prems(2)]
    obtain c cs where c: "target it' = Some (c # cs)" "kv w1 (item_key cfg it) = Some c"
      by blast
    from ulca_loop_kv_mono [OF rest] c(2) have "kv w' (item_key cfg it) = Some c"
      by (auto simp: map_le_def dom_def)
    with c(1) 0 out show ?thesis by simp
  next
    case (Suc j)
    with Cons.prems(3) have "j < length items" by simp
    from Cons.IH [OF rest up this] Suc out show ?thesis by simp
  qed
qed

lemma ulca_loop_hit_at:
  "ulca_loop E cfg w items = (w', Inr out) \<Longrightarrow> \<not> get_down w \<Longrightarrow> j < length items \<Longrightarrow>
   kv w (item_key cfg (items ! j)) = Some v \<Longrightarrow>
   out ! j = (items ! j)\<lparr>target := Some [v]\<rparr>"
proof (induction items arbitrary: w w' out j)
  case Nil
  then show ?case by simp
next
  case (Cons it items)
  from Cons.prems(1) obtain w1 it' out' where one: "ulca_item E cfg w it = (w1, Inr it')"
    and rest: "ulca_loop E cfg w1 items = (w', Inr out')" and out: "out = it' # out'"
    by (rule ulca_loop_Cons_Inr)
  have up: "\<not> get_down w1"
    using ulca_item_flags [OF one] Cons.prems(2) by simp
  show ?case
  proof (cases j)
    case 0
    with Cons.prems(4) have "kv w (item_key cfg it) = Some v" by simp
    from ulca_item_hit [OF Cons.prems(2) this, of E] one have "it' = it\<lparr>target := Some [v]\<rparr>"
      by simp
    with 0 out show ?thesis by simp
  next
    case (Suc k)
    with Cons.prems(3) have k: "k < length items" by simp
    from Cons.prems(4) Suc have "kv w (item_key cfg (items ! k)) = Some v" by simp
    with ulca_item_kv_mono [OF one] have "kv w1 (item_key cfg (items ! k)) = Some v"
      by (auto simp: map_le_def dom_def)
    from Cons.IH [OF rest up k this] Suc out show ?thesis by simp
  qed
qed

lemma ulca_loop_all_hits:
  "\<not> get_down w \<Longrightarrow> \<forall>it \<in> set items. kv w (item_key cfg it) \<noteq> None \<Longrightarrow>
   ulca_loop E cfg w items =
     (w\<lparr>calls := calls w @ map (\<lambda>it. Redis_get (item_key cfg it)) items\<rparr>,
      Inr (map (\<lambda>it. it\<lparr>target := Some [the (kv w (item_key cfg it))]\<rparr>) items))"
proof (induction items arbitrary: w)
  case Nil
  then show ?case by simp
next
  case (Cons it items)
  from Cons.prems(2) obtain v where v: "kv w (item_key cfg it) = Some v" by auto
  let ?w1 = "w\<lparr>calls := calls w @ [Redis_get (item_key cfg it)]\<rparr>"
  have one: "ulca_item E cfg w it = (?w1, Inr (it\<lparr>target := Some [v]\<rparr>))"
    by (rule ulca_item_hit [OF Cons.prems(1) v])
  have "\<not> get_down ?w1" "\<forall>it \<in> set items. kv ?w1 (item_key cfg it) \<noteq> None"
    using Cons.prems by simp_all
  from Cons.IH [OF this] one v show ?case by simp
qed

section \<open>Language validation\<close>

text \<open>
  C7. A request whose language code (or pair) is not registered for the direction is
  rejected before any access to the cache or the engine (the state, with its record of
  calls, is returned as it was): the word and the reverse handlers answer with
  \<open>success = False\<close> and an error that ends with the supported languages, the batch
  handler (given a body with \<open>input\<close> and \<open>config\<close>) with status 501.
\<close>

theorem unsupported_language_rejected:
  "(lc \<notin> set (all_supported_langs (en2indic E)) \<longrightarrow>
      xlit_api E now w lc word ns tn =
        (w, 200, \<lparr>success = False,
                  error = str ''Invalid scheme identifier. Supported languages are: ''
                            @ langs_str (en2indic E),
                  at = now @ str '' +0000 UTC'', input = strip word, result = Str []\<rparr>))
   \<and> (lc \<notin> set (all_supported_langs (indic2en E)) \<longrightarrow>
      reverse_xlit_api E now w lc word ns =
        (w, 200, \<lparr>success = False,
                  error = str ''Invalid scheme identifier. Supported languages are: ''
                            @ langs_str (indic2en E),
                  at = now @ str '' +0000 UTC'', input = strip word, result = Str []\<rparr>))
   \<and> (data_input d = Some items \<and> data_config d = Some cfg \<and> \<not> lang_pair_supported E cfg \<longrightarrow>
      ulca_api E w d =
        (w, Inr (501, Status 501 (str ''The mentioned language-pair is not supported yet.''))))"
  by (simp add: xlit_api_def reverse_xlit_api_def ulca_api_def Let_def)

theorem unsupported_language_rejected_witness:
  "str ''xx'' \<notin> set (all_supported_langs (en2indic demo_ENGINE))
   \<and> (str ''xx'') \<notin> set (all_supported_langs (indic2en demo_ENGINE))
   \<and> \<not> lang_pair_supported demo_ENGINE
         \<lparr>language = \<lparr>sourceLanguage = str ''en'', targetLanguage = str ''xx''\<rparr>,
          isSentence = None, numSuggestions = None\<rparr>
   \<and> xlit_api demo_ENGINE (str ''t'') empty_world (str ''xx'') (str ''amma'') None False =
        (empty_world, 200, \<lparr>success = False,
           error = str ''Invalid scheme identifier. Supported languages are: [hi, ta]'',
           at = str ''t +0000 UTC'', input = str ''amma'', result = Str []\<rparr>)
   \<and> reverse_xlit_api demo_ENGINE (str ''t'') empty_world (str ''xx'') (str ''amma'') None =
        (empty_world, 200, \<lparr>success = False,
           error = str ''Invalid scheme identifier. Supported languages are: [hi, ta]'',
           at = str ''t +0000 UTC'', input = str ''amma'', result = Str []\<rparr>)
   \<and> ulca_api demo_ENGINE empty_world
        (batch [str ''amma'']
           \<lparr>language = \<lparr>sourceLanguage = str ''en'', targetLanguage = str ''xx''\<rparr>,
            isSentence = None, numSuggestions = None\<rparr>) =
        (empty_world, Inr (501, Status 501 (str ''The mentioned language-pair is not supported yet.'')))"
proof -
  let ?cfg = "\<lparr>language = \<lparr>sourceLanguage = str ''en'', targetLanguage = str ''xx''\<rparr>,
            isSentence = None, numSuggestions = None\<rparr>"
  have a: "str ''xx'' \<notin> set (all_supported_langs (en2indic demo_ENGINE))"
    and b: "str ''xx'' \<notin> set (all_supported_langs (indic2en demo_ENGINE))"
    and c: "\<not> lang_pair_supported demo_ENGINE ?cfg"
    by (simp_all add: demo_ENGINE_def demo_engine_def lang_pair_supported_def)
  have s: "strip (str ''amma'') = str ''amma''"
    by (rule strip_amma)
  have l: "langs_str (en2indic demo_ENGINE) = str ''[hi, ta]''" "langs_str (indic2en demo_ENGINE) = str ''[hi, ta]''"
    by (simp_all add: demo_ENGINE_def demo_engine_def)
  have d: "data_input (batch [str ''amma''] ?cfg) = Some [mk_item (str ''amma'')]"
       "data_config (batch [str ''amma''] ?cfg) = Some ?cfg"
    by (simp_all add: batch_def)
  from unsupported_language_rejected
         [of "str ''xx''" demo_ENGINE "str ''t''" empty_world "str ''amma''" None False
             "batch [str ''amma''] ?cfg" "[mk_item (str ''amma'')]" ?cfg]
  show ?thesis using a b c s l d by simp
qed

section \<open>The three handlers\<close>

lemma xlit_api_supported:
  "lc \<in> set (all_supported_langs (en2indic E)) \<Longrightarrow>
   xlit_api E now w lc word ns tn =
     (w\<lparr>calls := calls w @
         [Translit_word En2indic (take 70 word) lc (case ns of None \<Rightarrow> DEFAULT_NUM_SUGGESTIONS | Some n \<Rightarrow> n)
            (Some tn)]\<rparr>,
      200,
      case translit_word (en2indic E) (take 70 word) lc (case ns of None \<Rightarrow> DEFAULT_NUM_SUGGESTIONS | Some n \<Rightarrow> n)
             (Some tn) of
        Returns cs \<Rightarrow> \<lparr>success = True, error = [], at = now @ str '' +0000 UTC'',
                       input = strip word, result = Strs cs\<rparr>
      | Returns_error e \<Rightarrow> \<lparr>success = False, error = XlitError_value e,
                       at = now @ str '' +0000 UTC'', input = strip word, result = Str []\<rparr>
      | Raises \<Rightarrow> \<lparr>success = False, error = str ''Internal crash ;('',
                       at = now @ str '' +0000 UTC'', input = strip word, result = Str []\<rparr>)"
  by (cases "translit_word (en2indic E) (take 70 word) lc
        (case ns of None \<Rightarrow> DEFAULT_NUM_SUGGESTIONS | Some n \<Rightarrow> n) (Some tn)")
    (simp_all add: xlit_api_def call_translit_word_def Let_def)

lemma reverse_xlit_api_supported:
  "lc \<in> set (all_supported_langs (indic2en E)) \<Longrightarrow>
   reverse_xlit_api E now w lc word ns =
     (w\<lparr>calls := calls w @
         [Translit_word Indic2en (take 70 word) lc (case ns of None \<Rightarrow> DEFAULT_NUM_SUGGESTIONS | Some n \<Rightarrow> n)
            None]\<rparr>,
      200,
      case translit_word (indic2en E) (take 70 word) lc (case ns of None \<Rightarrow> DEFAULT_NUM_SUGGESTIONS | Some n \<Rightarrow> n)
             None of
        Returns cs \<Rightarrow> \<lparr>success = True, error = [], at = now @ str '' +0000 UTC'',
                       input = strip word, result = Strs cs\<rparr>
      | Returns_error e \<Rightarrow> \<lparr>success = False, error = XlitError_value e,
                       at = now @ str '' +0000 UTC'', input = strip word, result = Str []\<rparr>
      | Raises \<Rightarrow> \<lparr>success = False, error = str ''Internal crash ;('',
                       at = now @ str '' +0000 UTC'', input = strip word, result = Str []\<rparr>)"
  by (cases "translit_word (indic2en E) (take 70 word) lc
        (case ns of None \<Rightarrow> DEFAULT_NUM_SUGGESTIONS | Some n \<Rightarrow> n) None")
    (simp_all add: reverse_xlit_api_def call_translit_word_def Let_def)

lemma xlit_api_no_redis:
  "kv (fst (xlit_api E now w lc word ns tn)) = kv w \<and>
   redis_calls (fst (xlit_api E now w lc word ns tn)) = redis_calls w"
  by (cases "lc \<in> set (all_supported_langs (en2indic E))")
    (simp_all add: xlit_api_supported redis_calls_def, simp add: xlit_api_def Let_def)

lemma reverse_xlit_api_no_redis:
  "kv (fst (reverse_xlit_api E now w lc word ns)) = kv w \<and>
   redis_calls (fst (reverse_xlit_api E now w lc word ns)) = redis_calls w"
  by (cases "lc \<in> set (all_supported_langs (indic2en E))")
    (simp_all add: reverse_xlit_api_supported redis_calls_def, simp add: reverse_xlit_api_def Let_def)

lemma ulca_api_loop:
  "data_input d = Some items \<Longrightarrow> data_config d = Some cfg \<Longrightarrow> lang_pair_supported E cfg \<Longrightarrow>
   ulca_api E w d =
     (case ulca_loop E cfg w items of
        (w', Inl e) \<Rightarrow> (w', Inl e)
      | (w', Inr out) \<Rightarrow> (w', Inr (200, Output out)))"
  by (simp add: ulca_api_def)

lemma ulca_api_Output:
  assumes "ulca_api E w d = (w', Inr (200, Output out))"
  obtains items cfg where "data_input d = Some items" "data_config d = Some cfg"
    "lang_pair_supported E cfg" "ulca_loop E cfg w items = (w', Inr out)"
  using assms
  by (auto simp: ulca_api_def split: option.splits if_splits prod.splits sum.splits)

section \<open>Engine failures\<close>

text \<open>
  C1. The claim: in a batch, an engine failure on one item does not stop the items after
  it, and the response holds the results of the items that did not fail. The loop of
  \<open>ulca_api\<close> has no handler around the engine calls: in a batch of three words whose
  second makes the engine raise, the exception leaves the handler after the second engine
  call, the third item is never looked at and there is no response body; an engine that
  returns an \<open>XlitError\<close> makes the indexing of the result raise.
\<close>

theorem batch_aborts_at_failing_item:
  "ulca_api demo_ENGINE empty_world (batch [str ''amma'', str ''boom'', str ''ravi''] (word_config None)) =
     (\<lparr>kv = [cache_key (str ''amma'') (str ''en'') (str ''hi'') \<mapsto> (str ''amma1'')], get_down = False,
       set_down = False,
       calls = [Redis_get (cache_key (str ''amma'') (str ''en'') (str ''hi'')),
                Translit_word En2indic (str ''amma'') (str ''hi'') 5 None,
                Redis_set (cache_key (str ''amma'') (str ''en'') (str ''hi'')) (str ''amma1''),
                Redis_get (cache_key (str ''boom'') (str ''en'') (str ''hi'')),
                Translit_word En2indic (str ''boom'') (str ''hi'') 5 None]\<rparr>,
      Inl EngineException)
   \<and> snd (ulca_api demo_ENGINE empty_world
            (batch [str ''amma'', str ''bad'', str ''ravi''] (word_config None))) = Inl TypeError"
  by (simp add: eval_defs)

text \<open>
  C5. The claim: an exception of the engine never leaves a handler. It does leave the
  batch handler, in word mode and in sentence mode; the word handler catches it and
  answers with status 200, \<open>success = False\<close> and the error text.
\<close>

theorem batch_engine_exception_escapes:
  "snd (ulca_api demo_ENGINE empty_world (batch [str ''boom''] (word_config None)))
     = Inl EngineException
   \<and> snd (ulca_api demo_ENGINE empty_world (batch [str ''boom''] sentence_config))
     = Inl EngineException
   \<and> snd (xlit_api demo_ENGINE (str ''t'') empty_world (str ''hi'') (str ''boom'') None False)
     = (200, \<lparr>success = False, error = str ''Internal crash ;('', at = str ''t +0000 UTC'',
              input = str ''boom'', result = Str []\<rparr>)"
  by (simp add: eval_defs xlit_api_def strip_boom DEFAULT_NUM_SUGGESTIONS_def)

section \<open>Failures of the cache backend\<close>

text \<open>
  C2. The claim: a failure of the cache backend on \<open>get\<close> counts as a miss, a failure on
  \<open>set\<close> is ignored, and neither fails the request. With a Redis server that raises on
  \<open>get\<close>, and with one that raises on \<open>set\<close>, a batch of one supported word ends in the
  exception of the Redis client: the request fails.
\<close>

theorem store_failure_fails_request:
  "snd (ulca_api demo_ENGINE (empty_world\<lparr>get_down := True\<rparr>)
          (batch [str ''amma''] (word_config None))) = Inl ConnectionError
   \<and> snd (ulca_api demo_ENGINE (empty_world\<lparr>set_down := True\<rparr>)
          (batch [str ''amma''] (word_config None))) = Inl ConnectionError"
  by (simp add: eval_defs)

lemma ulca_item_miss_calls:
  "\<not> get_down w \<Longrightarrow> kv w (item_key cfg it) = None \<Longrightarrow>
   \<exists>rest. calls (fst (ulca_item E cfg w it)) =
     calls w @ Redis_get (item_key cfg it) #
       (if is_sentence cfg then Translit_sentence (engine cfg) (source it) (lang_code cfg)
        else Translit_word (engine cfg) (take 32 (source it)) (lang_code cfg)
               (num_suggestions cfg) None) # rest"
  by (auto simp: ulca_item_def redis_get_def redis_set_def call_translit_word_def
      call_translit_sentence_def Let_def
      split: if_splits option.splits engine_result.splits list.splits)

lemma ulca_item_set_down:
  "\<not> get_down w \<Longrightarrow> set_down w \<Longrightarrow> kv w (item_key cfg it) = None \<Longrightarrow>
   engine_succeeds E cfg it \<Longrightarrow>
   snd (ulca_item E cfg w it) = Inl ConnectionError"
  by (auto simp: ulca_item_def redis_get_def redis_set_def call_translit_word_def
      call_translit_sentence_def Let_def engine_succeeds_def
      split: if_splits option.splits engine_result.splits list.splits)

lemma ulca_api_first_item_fails:
  assumes "snd (ulca_item E cfg w it) = Inl e"
    and "data_input d = Some (it # items)" "data_config d = Some cfg"
    and "lang_pair_supported E cfg"
  shows "snd (ulca_api E w d) = Inl e"
proof -
  from assms(1) obtain w1 where "ulca_item E cfg w it = (w1, Inl e)"
    by (cases "ulca_item E cfg w it") auto
  with assms(2-4) show ?thesis
    by (simp add: ulca_api_loop)
qed

text \<open>
  C2, as the code has it. A \<open>get\<close> that answers with no value is a miss, and the next
  call is the engine call for the item. An exception of \<open>get\<close>, and an exception of
  \<open>set\<close> after a miss and a successful engine call, leave the batch handler (shown for
  the first item of a batch with a supported language pair). The word and the reverse
  handlers never call Redis, so a store failure cannot reach them.
\<close>

theorem store_failure_propagates:
  "(\<not> get_down w \<and> kv w (item_key cfg it) = None \<longrightarrow>
      (\<exists>rest. calls (fst (ulca_item E cfg w it)) =
         calls w @ Redis_get (item_key cfg it) #
           (if is_sentence cfg then Translit_sentence (engine cfg) (source it) (lang_code cfg)
            else Translit_word (engine cfg) (take 32 (source it)) (lang_code cfg)
                   (num_suggestions cfg) None) # rest))
   \<and> (get_down wg \<and> data_input d = Some (it # items) \<and> data_config d = Some cfg
        \<and> lang_pair_supported E cfg \<longrightarrow>
      snd (ulca_api E wg d) = Inl ConnectionError)
   \<and> (set_down ws \<and> \<not> get_down ws \<and> kv ws (item_key cfg it) = None
        \<and> engine_succeeds E cfg it
        \<and> data_input d = Some (it # items) \<and> data_config d = Some cfg
        \<and> lang_pair_supported E cfg \<longrightarrow>
      snd (ulca_api E ws d) = Inl ConnectionError)
   \<and> kv (fst (xlit_api E now w lc word ns tn)) = kv w
   \<and> redis_calls (fst (xlit_api E now w lc word ns tn)) = redis_calls w
   \<and> kv (fst (reverse_xlit_api E now w lc word ns)) = kv w
   \<and> redis_calls (fst (reverse_xlit_api E now w lc word ns)) = redis_calls w"
proof -
  have get: "snd (ulca_item E cfg wg it) = Inl ConnectionError" if "get_down wg"
    using that by (simp add: ulca_item_get_down)
  show ?thesis
    using ulca_item_miss_calls [where w = w and cfg = cfg and it = it and E = E]
      ulca_api_first_item_fails [OF get, where d = d and items = items]
      ulca_api_first_item_fails [OF ulca_item_set_down,
        where w = ws and cfg = cfg and it = it and E = E and d = d and items = items]
      xlit_api_no_redis [of E now w lc word ns tn]
      reverse_xlit_api_no_redis [of E now w lc word ns]
    by blast
qed

theorem store_failure_propagates_witness:
  "\<not> get_down empty_world
   \<and> kv empty_world (item_key (word_config None) (mk_item (str ''amma''))) = None
   \<and> calls (fst (ulca_item demo_ENGINE (word_config None) empty_world (mk_item (str ''amma''))))
       = [Redis_get (cache_key (str ''amma'') (str ''en'') (str ''hi'')),
          Translit_word En2indic (str ''amma'') (str ''hi'') 5 None,
          Redis_set (cache_key (str ''amma'') (str ''en'') (str ''hi'')) (str ''amma1'')]
   \<and> get_down (empty_world\<lparr>get_down := True\<rparr>)
   \<and> set_down (empty_world\<lparr>set_down := True\<rparr>)
   \<and> engine_succeeds demo_ENGINE (word_config None) (mk_item (str ''amma''))
   \<and> lang_pair_supported demo_ENGINE (word_config None)
   \<and> snd (ulca_api demo_ENGINE (empty_world\<lparr>get_down := True\<rparr>)
            (batch [str ''amma'', str ''ravi''] (word_config None))) = Inl ConnectionError
   \<and> snd (ulca_api demo_ENGINE (empty_world\<lparr>set_down := True\<rparr>)
            (batch [str ''amma'', str ''ravi''] (word_config None))) = Inl ConnectionError
   \<and> kv (fst (xlit_api demo_ENGINE (str ''t'') empty_world (str ''hi'') (str ''amma'') None False)) = Map.empty"
proof -
  let ?cfg = "word_config None" and ?it = "mk_item (str ''amma'')"
  let ?d = "batch [str ''amma'', str ''ravi''] ?cfg"
  have h: "\<not> get_down empty_world" "kv empty_world (item_key ?cfg ?it) = None"
    "get_down (empty_world\<lparr>get_down := True\<rparr>)"
    "set_down (empty_world\<lparr>set_down := True\<rparr>)"
    "\<not> get_down (empty_world\<lparr>set_down := True\<rparr>)"
    "kv (empty_world\<lparr>set_down := True\<rparr>) (item_key ?cfg ?it) = None"
    "engine_succeeds demo_ENGINE ?cfg ?it"
    "lang_pair_supported demo_ENGINE ?cfg"
    "data_input ?d = Some (?it # [mk_item (str ''ravi'')])" "data_config ?d = Some ?cfg"
    by (simp_all add: eval_defs engine_succeeds_def)
  have c: "calls (fst (ulca_item demo_ENGINE ?cfg empty_world ?it))
       = [Redis_get (cache_key (str ''amma'') (str ''en'') (str ''hi'')),
          Translit_word En2indic (str ''amma'') (str ''hi'') 5 None,
          Redis_set (cache_key (str ''amma'') (str ''en'') (str ''hi'')) (str ''amma1'')]"
    by (simp add: eval_defs)
  have e: "kv empty_world = Map.empty"
    by (simp add: empty_world_def)
  from store_failure_propagates
    [where w = empty_world and cfg = ?cfg and it = ?it and E = demo_ENGINE
       and wg = "empty_world\<lparr>get_down := True\<rparr>" and d = ?d
       and items = "[mk_item (str ''ravi'')]" and ws = "empty_world\<lparr>set_down := True\<rparr>"
       and now = "str ''t''" and lc = "str ''hi''" and word = "str ''amma''" and ns = None and tn = False]
  show ?thesis using h c e by simp
qed

section \<open>Length caps\<close>

lemma xlit_api_calls:
  "lc \<in> set (all_supported_langs (en2indic E)) \<Longrightarrow>
   calls (fst (xlit_api E now w lc word ns tn)) =
     calls w @ [Translit_word En2indic (take 70 word) lc
                  (case ns of None \<Rightarrow> 5 | Some n \<Rightarrow> n) (Some tn)]"
  by (cases ns) (simp_all add: xlit_api_supported DEFAULT_NUM_SUGGESTIONS_def)

lemma reverse_xlit_api_calls:
  "lc \<in> set (all_supported_langs (indic2en E)) \<Longrightarrow>
   calls (fst (reverse_xlit_api E now w lc word ns)) =
     calls w @ [Translit_word Indic2en (take 70 word) lc
                  (case ns of None \<Rightarrow> 5 | Some n \<Rightarrow> n) None]"
  by (cases ns) (simp_all add: reverse_xlit_api_supported DEFAULT_NUM_SUGGESTIONS_def)

text \<open>
  C3. The claim: every batch item's source is cut to 32 characters before the cache key
  is computed and before the engine is called. For a source of 50 characters, sentence
  mode hands all 50 characters to the engine, and in both modes the key is computed from
  the 50 characters, which is another key than the one of the first 32.
\<close>

theorem batch_source_not_truncated:
  "calls (fst (ulca_api demo_ENGINE empty_world (batch [long_source] sentence_config))) =
     [Redis_get (cache_key long_source (str ''en'') (str ''hi'')),
      Translit_sentence En2indic long_source (str ''hi''),
      Redis_set (cache_key long_source (str ''en'') (str ''hi'')) (long_source @ str ''.'')]
   \<and> calls (fst (ulca_api demo_ENGINE empty_world (batch [long_source] (word_config None)))) =
     [Redis_get (cache_key long_source (str ''en'') (str ''hi'')),
      Translit_word En2indic (take 32 long_source) (str ''hi'') 5 None,
      Redis_set (cache_key long_source (str ''en'') (str ''hi'')) (take 32 long_source @ str ''1'')]
   \<and> length long_source = 50
   \<and> cache_key long_source (str ''en'') (str ''hi'') \<noteq> cache_key (take 32 long_source) (str ''en'') (str ''hi'')"
  by (simp add: eval_defs long_source_def)

text \<open>
  C3, as the code has it. The word and the reverse handlers pass the first 70 characters
  of the word to the engine. In the batch handler the key of every item is computed from
  the source as received; on a miss, word mode passes the first 32 characters to the
  engine and sentence mode passes the whole source; on a hit the engine is not called
  and the source is left as it is.
\<close>

theorem length_caps:
  "(lc \<in> set (all_supported_langs (en2indic E)) \<longrightarrow>
      calls (fst (xlit_api E now w lc word ns tn)) =
        calls w @ [Translit_word En2indic (take 70 word) lc
                     (case ns of None \<Rightarrow> 5 | Some n \<Rightarrow> n) (Some tn)])
   \<and> (lr \<in> set (all_supported_langs (indic2en E)) \<longrightarrow>
      calls (fst (reverse_xlit_api E now w lr word ns)) =
        calls w @ [Translit_word Indic2en (take 70 word) lr
                     (case ns of None \<Rightarrow> 5 | Some n \<Rightarrow> n) None])
   \<and> (\<exists>rest. calls (fst (ulca_item E cfg w it)) =
        calls w @ Redis_get (cache_key (source it) (sourceLanguage (language cfg))
                    (targetLanguage (language cfg))) # rest)
   \<and> (\<not> get_down w \<and> kv w (item_key cfg it) = None \<longrightarrow>
      (\<exists>rest. calls (fst (ulca_item E cfg w it)) =
         calls w @ Redis_get (item_key cfg it) #
           (if is_sentence cfg then Translit_sentence (engine cfg) (source it) (lang_code cfg)
            else Translit_word (engine cfg) (take 32 (source it)) (lang_code cfg)
                   (num_suggestions cfg) None) # rest))
   \<and> (\<not> get_down wh \<and> kv wh (item_key cfg it) = Some v \<longrightarrow>
      ulca_item E cfg wh it =
        (wh\<lparr>calls := calls wh @ [Redis_get (item_key cfg it)]\<rparr>,
         Inr (it\<lparr>target := Some [v]\<rparr>)))"
  using xlit_api_calls [where lc = lc and E = E and now = now and w = w and word = word
      and ns = ns and tn = tn]
    reverse_xlit_api_calls [where lc = lr and E = E and now = now and w = w and word = word
      and ns = ns]
    ulca_item_first_call [where E = E and cfg = cfg and w = w and it = it]
    ulca_item_miss_calls [where E = E and cfg = cfg and w = w and it = it]
    ulca_item_hit [where E = E and cfg = cfg and w = wh and it = it and v = v]
  by blast

theorem length_caps_witness:
  "str ''hi'' \<in> set (all_supported_langs (en2indic demo_ENGINE))
   \<and> (str ''hi'') \<in> set (all_supported_langs (indic2en demo_ENGINE))
   \<and> \<not> get_down empty_world
   \<and> kv empty_world (item_key sentence_config (mk_item long_source)) = None
   \<and> kv empty_world (item_key (word_config None) (mk_item long_source)) = None
   \<and> kv (empty_world\<lparr>kv := [cache_key long_source (str ''en'') (str ''hi'') \<mapsto> (str ''x'')]\<rparr>)
        (item_key (word_config None) (mk_item long_source)) = Some (str ''x'')
   \<and> calls (fst (xlit_api demo_ENGINE (str ''t'') empty_world (str ''hi'') (long_source @ long_source)
                    None False)) =
       [Translit_word En2indic (long_source @ str ''aaaaaaaaaabbbbbbbbbb'') (str ''hi'') 5 (Some False)]
   \<and> calls (fst (reverse_xlit_api demo_ENGINE (str ''t'') empty_world (str ''hi'')
                    (long_source @ long_source) None)) =
       [Translit_word Indic2en (long_source @ str ''aaaaaaaaaabbbbbbbbbb'') (str ''hi'') 5 None]
   \<and> (\<exists>rest. calls (fst (ulca_item demo_ENGINE sentence_config empty_world
                            (mk_item long_source))) =
         Redis_get (cache_key long_source (str ''en'') (str ''hi'')) #
         Translit_sentence En2indic long_source (str ''hi'') # rest)
   \<and> (\<exists>rest. calls (fst (ulca_item demo_ENGINE (word_config None) empty_world
                            (mk_item long_source))) =
         Redis_get (cache_key long_source (str ''en'') (str ''hi'')) #
         Translit_word En2indic (str ''aaaaaaaaaabbbbbbbbbbccccccccccdd'') (str ''hi'') 5 None # rest)
   \<and> snd (ulca_item demo_ENGINE (word_config None)
             (empty_world\<lparr>kv := [cache_key long_source (str ''en'') (str ''hi'') \<mapsto> (str ''x'')]\<rparr>)
             (mk_item long_source)) =
       Inr \<lparr>source = long_source, target = Some [str ''x'']\<rparr>"
proof -
  let ?cs = sentence_config and ?cw = "word_config None" and ?it = "mk_item long_source"
  let ?wh = "empty_world\<lparr>kv := [cache_key long_source (str ''en'') (str ''hi'') \<mapsto> (str ''x'')]\<rparr>"
  have h: "str ''hi'' \<in> set (all_supported_langs (en2indic demo_ENGINE))"
    "str ''hi'' \<in> set (all_supported_langs (indic2en demo_ENGINE))"
    "\<not> get_down empty_world" "kv empty_world (item_key ?cs ?it) = None"
    "kv empty_world (item_key ?cw ?it) = None"
    "\<not> get_down ?wh" "kv ?wh (item_key ?cw ?it) = Some (str ''x'')"
    "is_sentence ?cs" "engine ?cs = En2indic" "lang_code ?cs = str ''hi''"
    "\<not> is_sentence ?cw" "engine ?cw = En2indic" "lang_code ?cw = str ''hi''"
    "num_suggestions ?cw = 5"
    "source ?it = long_source" "calls empty_world = []"
    "item_key ?cs ?it = cache_key long_source (str ''en'') (str ''hi'')"
    "item_key ?cw ?it = cache_key long_source (str ''en'') (str ''hi'')"
    "?it\<lparr>target := Some [str ''x'']\<rparr> = \<lparr>source = long_source, target = Some [str ''x'']\<rparr>"
    by (simp_all add: eval_defs)
  have t: "take 70 (long_source @ long_source) = long_source @ str ''aaaaaaaaaabbbbbbbbbb''"
    "take 32 long_source = str ''aaaaaaaaaabbbbbbbbbbccccccccccdd''"
    by (simp_all add: long_source_def)
  from length_caps [where lc = "str ''hi''" and lr = "str ''hi''" and E = demo_ENGINE and now = "str ''t''"
      and w = empty_world and word = "long_source @ long_source" and ns = None and tn = False
      and cfg = ?cs and it = ?it]
    length_caps [where lc = "str ''hi''" and lr = "str ''hi''" and E = demo_ENGINE and now = "str ''t''"
      and w = empty_world and word = "long_source @ long_source" and ns = None and tn = False
      and cfg = ?cw and it = ?it and wh = ?wh and v = "str ''x''"]
  show ?thesis using h t by simp
qed

section \<open>The number of suggestions\<close>

text \<open>
  C4. The claim: the number of suggestions is clamped to the range from 1 to
  \<open>MAX_SUGGESTIONS\<close> before the engine is called. A request for 100 suggestions reaches
  the engine with \<open>topk = 100\<close> from the word handler and from the batch handler, and a
  request for -3 reaches it with \<open>topk = -3\<close> from the reverse handler.
\<close>

theorem topk_not_clamped:
  "calls (fst (xlit_api demo_ENGINE (str ''t'') empty_world (str ''hi'') (str ''amma'') (Some 100) False)) =
     [Translit_word En2indic (str ''amma'') (str ''hi'') 100 (Some False)]
   \<and> calls (fst (reverse_xlit_api demo_ENGINE (str ''t'') empty_world (str ''hi'') (str ''amma'') (Some (- 3)))) =
     [Translit_word Indic2en (str ''amma'') (str ''hi'') (- 3) None]
   \<and> calls (fst (ulca_api demo_ENGINE empty_world (batch [str ''amma''] (word_config (Some 100))))) =
     [Redis_get (cache_key (str ''amma'') (str ''en'') (str ''hi'')),
      Translit_word En2indic (str ''amma'') (str ''hi'') 100 None,
      Redis_set (cache_key (str ''amma'') (str ''en'') (str ''hi'')) (str ''amma1'')]
   \<and> \<not> (100 \<le> MAX_SUGGESTIONS) \<and> \<not> (1 \<le> (- 3 :: int))"
  by (simp add: eval_defs xlit_api_def reverse_xlit_api_def MAX_SUGGESTIONS_def)

lemma num_suggestions_word:
  "\<not> is_sentence cfg \<Longrightarrow>
   num_suggestions cfg = (case numSuggestions cfg of Some n \<Rightarrow> n | None \<Rightarrow> 5)"
  by (simp add: num_suggestions_def)

text \<open>
  C4, as the code has it. The engine is called with the requested number of suggestions
  as it is, 5 when none is requested, in the word, the reverse and the batch handler.
  Sentence mode sets \<open>num_suggestions\<close> to 1, and calls \<open>translit_sentence\<close>, which takes
  no \<open>topk\<close>.
\<close>

theorem topk_passed_as_requested:
  "(lc \<in> set (all_supported_langs (en2indic E)) \<longrightarrow>
      calls (fst (xlit_api E now w lc word ns tn)) =
        calls w @ [Translit_word En2indic (take 70 word) lc
                     (case ns of None \<Rightarrow> 5 | Some n \<Rightarrow> n) (Some tn)])
   \<and> (lr \<in> set (all_supported_langs (indic2en E)) \<longrightarrow>
      calls (fst (reverse_xlit_api E now w lr word ns)) =
        calls w @ [Translit_word Indic2en (take 70 word) lr
                     (case ns of None \<Rightarrow> 5 | Some n \<Rightarrow> n) None])
   \<and> (\<not> get_down w \<and> kv w (item_key cfg it) = None \<and> \<not> is_sentence cfg \<longrightarrow>
      (\<exists>rest. calls (fst (ulca_item E cfg w it)) =
         calls w @ Redis_get (item_key cfg it) #
           Translit_word (engine cfg) (take 32 (source it)) (lang_code cfg)
             (case numSuggestions cfg of Some n \<Rightarrow> n | None \<Rightarrow> 5) None # rest))
   \<and> (is_sentence cfgs \<longrightarrow> num_suggestions cfgs = 1)
   \<and> (\<not> get_down w \<and> kv w (item_key cfgs it) = None \<and> is_sentence cfgs \<longrightarrow>
      (\<exists>rest. calls (fst (ulca_item E cfgs w it)) =
         calls w @ Redis_get (item_key cfgs it) #
           Translit_sentence (engine cfgs) (source it) (lang_code cfgs) # rest))"
proof -
  have word: "\<exists>rest. calls (fst (ulca_item E cfg w it)) =
         calls w @ Redis_get (item_key cfg it) #
           Translit_word (engine cfg) (take 32 (source it)) (lang_code cfg)
             (case numSuggestions cfg of Some n \<Rightarrow> n | None \<Rightarrow> 5) None # rest"
    if "\<not> get_down w" "kv w (item_key cfg it) = None" "\<not> is_sentence cfg"
    using ulca_item_miss_calls [OF that(1,2), of E] that(3)
    by (simp add: num_suggestions_word)
  have sent: "\<exists>rest. calls (fst (ulca_item E cfgs w it)) =
         calls w @ Redis_get (item_key cfgs it) #
           Translit_sentence (engine cfgs) (source it) (lang_code cfgs) # rest"
    if "\<not> get_down w" "kv w (item_key cfgs it) = None" "is_sentence cfgs"
    using ulca_item_miss_calls [OF that(1,2), of E] that(3) by simp
  have one: "is_sentence cfgs \<longrightarrow> num_suggestions cfgs = 1"
    by (simp add: num_suggestions_def)
  show ?thesis
    using xlit_api_calls [where lc = lc and E = E and now = now and w = w and word = word
        and ns = ns and tn = tn]
      reverse_xlit_api_calls [where lc = lr and E = E and now = now and w = w and word = word
        and ns = ns]
      word sent one
    by blast
qed

theorem topk_passed_as_requested_witness:
  "str ''hi'' \<in> set (all_supported_langs (en2indic demo_ENGINE))
   \<and> (str ''hi'') \<in> set (all_supported_langs (indic2en demo_ENGINE))
   \<and> \<not> get_down empty_world
   \<and> kv empty_world (item_key (word_config (Some 100)) (mk_item (str ''amma''))) = None
   \<and> kv empty_world (item_key sentence_config (mk_item (str ''amma''))) = None
   \<and> \<not> is_sentence (word_config (Some 100)) \<and> is_sentence sentence_config
   \<and> calls (fst (xlit_api demo_ENGINE (str ''t'') empty_world (str ''hi'') (str ''amma'') (Some 100) False)) =
       [Translit_word En2indic (str ''amma'') (str ''hi'') 100 (Some False)]
   \<and> calls (fst (reverse_xlit_api demo_ENGINE (str ''t'') empty_world (str ''hi'') (str ''amma'') None)) =
       [Translit_word Indic2en (str ''amma'') (str ''hi'') 5 None]
   \<and> (\<exists>rest. calls (fst (ulca_item demo_ENGINE (word_config (Some 100)) empty_world
                            (mk_item (str ''amma'')))) =
         Redis_get (cache_key (str ''amma'') (str ''en'') (str ''hi'')) #
         Translit_word En2indic (str ''amma'') (str ''hi'') 100 None # rest)
   \<and> num_suggestions sentence_config = 1
   \<and> (\<exists>rest. calls (fst (ulca_item demo_ENGINE sentence_config empty_world
                            (mk_item (str ''amma'')))) =
         Redis_get (cache_key (str ''amma'') (str ''en'') (str ''hi'')) #
         Translit_sentence En2indic (str ''amma'') (str ''hi'') # rest)"
proof -
  let ?cs = sentence_config and ?cw = "word_config (Some 100)" and ?it = "mk_item (str ''amma'')"
  have h: "str ''hi'' \<in> set (all_supported_langs (en2indic demo_ENGINE))"
    "str ''hi'' \<in> set (all_supported_langs (indic2en demo_ENGINE))"
    "\<not> get_down empty_world" "kv empty_world (item_key ?cs ?it) = None"
    "kv empty_world (item_key ?cw ?it) = None"
    "is_sentence ?cs" "engine ?cs = En2indic" "lang_code ?cs = str ''hi''"
    "\<not> is_sentence ?cw" "engine ?cw = En2indic" "lang_code ?cw = str ''hi''"
    "numSuggestions ?cw = Some 100"
    "source ?it = str ''amma''" "calls empty_world = []"
    "item_key ?cs ?it = cache_key (str ''amma'') (str ''en'') (str ''hi'')"
    "item_key ?cw ?it = cache_key (str ''amma'') (str ''en'') (str ''hi'')"
    by (simp_all add: eval_defs)
  from topk_passed_as_requested [where lc = "str ''hi''" and lr = "str ''hi''" and E = demo_ENGINE
      and now = "str ''t''" and w = empty_world and word = "str ''amma''" and ns = "Some 100"
      and tn = False and cfg = ?cw and cfgs = ?cs and it = ?it]
    topk_passed_as_requested [where lr = "str ''hi''" and E = demo_ENGINE
      and now = "str ''t''" and w = empty_world and word = "str ''amma''" and ns = None]
  show ?thesis using h by simp
qed

section \<open>Cache hits\<close>

text \<open>
  C6. The claim: every request whose triple has a cached entry gets the cached result and
  the engine is not invoked. After a batch call has cached the result for
  \<open>(amma, en, hi)\<close>, the word handler, asked for the same triple while the engine raises,
  still calls the engine and answers with the error; the reverse handler does the same
  for \<open>(amma, hi, en)\<close>. Neither reads the cache.
\<close>

theorem word_handler_ignores_cache:
  "kv (fst (ulca_api demo_ENGINE empty_world (batch [str ''amma''] (word_config None))))
     (cache_key (str ''amma'') (str ''en'') (str ''hi'')) = Some (str ''amma1'')
   \<and> xlit_api down_ENGINE (str ''t'')
        (fst (ulca_api demo_ENGINE empty_world (batch [str ''amma''] (word_config None))))
        (str ''hi'') (str ''amma'') None False =
      (\<lparr>kv = [cache_key (str ''amma'') (str ''en'') (str ''hi'') \<mapsto> (str ''amma1'')], get_down = False,
        set_down = False,
        calls = [Redis_get (cache_key (str ''amma'') (str ''en'') (str ''hi'')),
                 Translit_word En2indic (str ''amma'') (str ''hi'') 5 None,
                 Redis_set (cache_key (str ''amma'') (str ''en'') (str ''hi'')) (str ''amma1''),
                 Translit_word En2indic (str ''amma'') (str ''hi'') 5 (Some False)]\<rparr>,
       200,
       \<lparr>success = False, error = str ''Internal crash ;('', at = str ''t +0000 UTC'',
        input = str ''amma'', result = Str []\<rparr>)
   \<and> kv (fst (ulca_api demo_ENGINE empty_world (batch [str ''amma''] reverse_word_config)))
     (cache_key (str ''amma'') (str ''hi'') (str ''en'')) = Some (str ''amma1'')
   \<and> reverse_xlit_api down_ENGINE (str ''t'')
        (fst (ulca_api demo_ENGINE empty_world (batch [str ''amma''] reverse_word_config)))
        (str ''hi'') (str ''amma'') None =
      (\<lparr>kv = [cache_key (str ''amma'') (str ''hi'') (str ''en'') \<mapsto> (str ''amma1'')],
        get_down = False, set_down = False,
        calls = [Redis_get (cache_key (str ''amma'') (str ''hi'') (str ''en'')),
                 Translit_word Indic2en (str ''amma'') (str ''hi'') 5 None,
                 Redis_set (cache_key (str ''amma'') (str ''hi'') (str ''en'')) (str ''amma1''),
                 Translit_word Indic2en (str ''amma'') (str ''hi'') 5 None]\<rparr>,
       200,
       \<lparr>success = False, error = str ''Internal crash ;('', at = str ''t +0000 UTC'',
        input = str ''amma'', result = Str []\<rparr>)"
  by (simp add: eval_defs xlit_api_def reverse_xlit_api_def strip_amma
      DEFAULT_NUM_SUGGESTIONS_def)

lemma engine_calls_append:
  "engine_calls (w\<lparr>calls := calls w @ map Redis_get ks\<rparr>) = engine_calls w"
  by (induction ks rule: rev_induct) (simp_all add: engine_calls_def)

text \<open>
  C6, as the code has it. In the batch handler an item whose key has a value in Redis
  gets that value as its only target, and the only call made is the \<open>get\<close>. Hence when a
  batch call has succeeded, the same batch sent again succeeds whatever the engine does
  now, makes no engine call, and gives every item the top candidate of the first call.
  The word and the reverse handlers make no Redis call on any request; given a supported
  language code they call the engine, and nothing else, and answer with its outcome,
  whatever Redis holds.
\<close>

theorem cached_batch_repeats:
  "(\<not> get_down w \<and> kv w (item_key cfg it) = Some v \<longrightarrow>
      ulca_item E cfg w it =
        (w\<lparr>calls := calls w @ [Redis_get (item_key cfg it)]\<rparr>, Inr (it\<lparr>target := Some [v]\<rparr>)))
   \<and> (ulca_api E w0 d = (w1, Inr (200, Output out)) \<and> \<not> get_down w0
        \<and> data_config d = Some cfg0 \<and> lang_pair_supported E2 cfg0 \<longrightarrow>
      (\<exists>w2 out2. ulca_api E2 w1 d = (w2, Inr (200, Output out2))
         \<and> length out2 = length out
         \<and> (\<forall>i < length out. \<exists>c cs. target (out ! i) = Some (c # cs)
               \<and> target (out2 ! i) = Some [c])
         \<and> engine_calls w2 = engine_calls w1 \<and> kv w2 = kv w1))
   \<and> (lc \<in> set (all_supported_langs (en2indic E)) \<longrightarrow>
      xlit_api E now wx lc word ns tn =
        (wx\<lparr>calls := calls wx @
            [Translit_word En2indic (take 70 word) lc
               (case ns of None \<Rightarrow> DEFAULT_NUM_SUGGESTIONS | Some n \<Rightarrow> n) (Some tn)]\<rparr>,
         200,
         case translit_word (en2indic E) (take 70 word) lc
                (case ns of None \<Rightarrow> DEFAULT_NUM_SUGGESTIONS | Some n \<Rightarrow> n) (Some tn) of
           Returns cs \<Rightarrow> \<lparr>success = True, error = [], at = now @ str '' +0000 UTC'',
                          input = strip word, result = Strs cs\<rparr>
         | Returns_error e \<Rightarrow> \<lparr>success = False, error = XlitError_value e,
                          at = now @ str '' +0000 UTC'', input = strip word, result = Str []\<rparr>
         | Raises \<Rightarrow> \<lparr>success = False, error = str ''Internal crash ;('',
                          at = now @ str '' +0000 UTC'', input = strip word, result = Str []\<rparr>))
   \<and> (lr \<in> set (all_supported_langs (indic2en E)) \<longrightarrow>
      reverse_xlit_api E now wx lr word ns =
        (wx\<lparr>calls := calls wx @
            [Translit_word Indic2en (take 70 word) lr
               (case ns of None \<Rightarrow> DEFAULT_NUM_SUGGESTIONS | Some n \<Rightarrow> n) None]\<rparr>,
         200,
         case translit_word (indic2en E) (take 70 word) lr
                (case ns of None \<Rightarrow> DEFAULT_NUM_SUGGESTIONS | Some n \<Rightarrow> n) None of
           Returns cs \<Rightarrow> \<lparr>success = True, error = [], at = now @ str '' +0000 UTC'',
                          input = strip word, result = Strs cs\<rparr>
         | Returns_error e \<Rightarrow> \<lparr>success = False, error = XlitError_value e,
                          at = now @ str '' +0000 UTC'', input = strip word, result = Str []\<rparr>
         | Raises \<Rightarrow> \<lparr>success = False, error = str ''Internal crash ;('',
                          at = now @ str '' +0000 UTC'', input = strip word, result = Str []\<rparr>))
   \<and> kv (fst (xlit_api E now wx lc word ns tn)) = kv wx
   \<and> redis_calls (fst (xlit_api E now wx lc word ns tn)) = redis_calls wx
   \<and> kv (fst (reverse_xlit_api E now wx lr word ns)) = kv wx
   \<and> redis_calls (fst (reverse_xlit_api E now wx lr word ns)) = redis_calls wx"
proof -
  have rep: "\<exists>w2 out2. ulca_api E2 w1 d = (w2, Inr (200, Output out2))
         \<and> length out2 = length out
         \<and> (\<forall>i < length out. \<exists>c cs. target (out ! i) = Some (c # cs)
               \<and> target (out2 ! i) = Some [c])
         \<and> engine_calls w2 = engine_calls w1 \<and> kv w2 = kv w1"
    if first: "ulca_api E w0 d = (w1, Inr (200, Output out))" and up: "\<not> get_down w0"
      and cfg0: "data_config d = Some cfg0" and sup: "lang_pair_supported E2 cfg0"
  proof -
    from first obtain items cfg' where d: "data_input d = Some items" "data_config d = Some cfg'"
      and loop: "ulca_loop E cfg' w0 items = (w1, Inr out)"
      by (rule ulca_api_Output)
    from d(2) cfg0 have [simp]: "cfg' = cfg0" by simp
    have len: "length out = length items"
      using ulca_loop_length [OF loop] .
    have up1: "\<not> get_down w1"
      using ulca_loop_flags [OF loop] up by simp
    have cached: "\<exists>c cs. target (out ! i) = Some (c # cs)
        \<and> kv w1 (item_key cfg0 (items ! i)) = Some c" if "i < length items" for i
      using ulca_loop_caches [OF loop up that] by simp
    have all: "\<forall>it \<in> set items. kv w1 (item_key cfg0 it) \<noteq> None"
    proof
      fix it assume "it \<in> set items"
      then obtain i where "i < length items" "items ! i = it"
        by (auto simp: in_set_conv_nth)
      with cached [of i] show "kv w1 (item_key cfg0 it) \<noteq> None" by auto
    qed
    let ?w2 = "w1\<lparr>calls := calls w1 @ map (\<lambda>it. Redis_get (item_key cfg0 it)) items\<rparr>"
    let ?out2 = "map (\<lambda>it. it\<lparr>target := Some [the (kv w1 (item_key cfg0 it))]\<rparr>) items"
    have second: "ulca_api E2 w1 d = (?w2, Inr (200, Output ?out2))"
      using d cfg0 sup ulca_loop_all_hits [OF up1 all, of E2] by (simp add: ulca_api_loop)
    have tops: "\<forall>i < length out. \<exists>c cs. target (out ! i) = Some (c # cs)
               \<and> target (?out2 ! i) = Some [c]"
    proof (intro allI impI)
      fix i assume "i < length out"
      with len have i: "i < length items" by simp
      from cached [OF i] obtain c cs where "target (out ! i) = Some (c # cs)"
        "kv w1 (item_key cfg0 (items ! i)) = Some c" by blast
      with i show "\<exists>c cs. target (out ! i) = Some (c # cs) \<and> target (?out2 ! i) = Some [c]"
        by simp
    qed
    have eng: "engine_calls ?w2 = engine_calls w1"
      using engine_calls_append [of w1 "map (item_key cfg0) items"] by (simp add: comp_def)
    from second len tops eng show ?thesis by simp
  qed
  show ?thesis
    using ulca_item_hit [where E = E and cfg = cfg and w = w and it = it and v = v] rep
      xlit_api_supported [where lc = lc and E = E and now = now and w = wx and word = word
        and ns = ns and tn = tn]
      reverse_xlit_api_supported [where lc = lr and E = E and now = now and w = wx
        and word = word and ns = ns]
      xlit_api_no_redis [where E = E and now = now and w = wx and lc = lc and word = word
        and ns = ns and tn = tn]
      reverse_xlit_api_no_redis [where E = E and now = now and w = wx and lc = lr
        and word = word and ns = ns]
    by blast
qed


theorem cached_batch_repeats_witness:
  "\<not> get_down empty_world
   \<and> lang_pair_supported down_ENGINE (word_config None)
   \<and> snd (ulca_api demo_ENGINE empty_world (batch [str ''amma'', str ''ravi''] (word_config None))) =
       Inr (200, Output [\<lparr>source = str ''amma'', target = Some [str ''amma1'', str ''amma2'', str ''amma3'']\<rparr>,
                         \<lparr>source = str ''ravi'', target = Some [str ''ravi1'', str ''ravi2'', str ''ravi3'']\<rparr>])
   \<and> (\<exists>w2 out2.
         ulca_api down_ENGINE
           (fst (ulca_api demo_ENGINE empty_world (batch [str ''amma'', str ''ravi''] (word_config None))))
           (batch [str ''amma'', str ''ravi''] (word_config None)) = (w2, Inr (200, Output out2))
         \<and> length out2 = 2
         \<and> target (out2 ! 0) = Some [str ''amma1''] \<and> target (out2 ! 1) = Some [str ''ravi1''])
   \<and> snd (ulca_item down_ENGINE (word_config None)
             (empty_world\<lparr>kv := [cache_key (str ''amma'') (str ''en'') (str ''hi'') \<mapsto> (str ''x'')]\<rparr>)
             (mk_item (str ''amma''))) = Inr \<lparr>source = str ''amma'', target = Some [str ''x'']\<rparr>
   \<and> str ''hi'' \<in> set (all_supported_langs (en2indic down_ENGINE))
   \<and> str ''hi'' \<in> set (all_supported_langs (indic2en down_ENGINE))
   \<and> xlit_api down_ENGINE (str ''t'')
        (empty_world\<lparr>kv := [cache_key (str ''amma'') (str ''en'') (str ''hi'') \<mapsto> (str ''x'')]\<rparr>)
        (str ''hi'') (str ''amma'') None False =
      (\<lparr>kv = [cache_key (str ''amma'') (str ''en'') (str ''hi'') \<mapsto> (str ''x'')],
        get_down = False, set_down = False,
        calls = [Translit_word En2indic (str ''amma'') (str ''hi'') 5 (Some False)]\<rparr>,
       200,
       \<lparr>success = False, error = str ''Internal crash ;('', at = str ''t +0000 UTC'',
        input = str ''amma'', result = Str []\<rparr>)
   \<and> reverse_xlit_api down_ENGINE (str ''t'')
        (empty_world\<lparr>kv := [cache_key (str ''amma'') (str ''en'') (str ''hi'') \<mapsto> (str ''x'')]\<rparr>)
        (str ''hi'') (str ''amma'') None =
      (\<lparr>kv = [cache_key (str ''amma'') (str ''en'') (str ''hi'') \<mapsto> (str ''x'')],
        get_down = False, set_down = False,
        calls = [Translit_word Indic2en (str ''amma'') (str ''hi'') 5 None]\<rparr>,
       200,
       \<lparr>success = False, error = str ''Internal crash ;('', at = str ''t +0000 UTC'',
        input = str ''amma'', result = Str []\<rparr>)"
proof -
  let ?cfg = "word_config None"
  let ?d = "batch [str ''amma'', str ''ravi''] ?cfg"
  let ?w1 = "fst (ulca_api demo_ENGINE empty_world ?d)"
  let ?out = "[\<lparr>source = str ''amma'', target = Some [str ''amma1'', str ''amma2'', str ''amma3'']\<rparr>,
               \<lparr>source = str ''ravi'', target = Some [str ''ravi1'', str ''ravi2'', str ''ravi3'']\<rparr>]"
  let ?wh = "empty_world\<lparr>kv := [cache_key (str ''amma'') (str ''en'') (str ''hi'') \<mapsto> (str ''x'')]\<rparr>"
  have res: "snd (ulca_api demo_ENGINE empty_world ?d) = Inr (200, Output ?out)"
    by (simp add: eval_defs)
  then have first: "ulca_api demo_ENGINE empty_world ?d = (?w1, Inr (200, Output ?out))"
    by (simp add: prod_eq_iff)
  have h: "\<not> get_down empty_world" "data_config ?d = Some ?cfg"
    "lang_pair_supported down_ENGINE ?cfg"
    "\<not> get_down ?wh" "kv ?wh (item_key ?cfg (mk_item (str ''amma''))) = Some (str ''x'')"
    "(mk_item (str ''amma''))\<lparr>target := Some [str ''x'']\<rparr> = \<lparr>source = str ''amma'', target = Some [str ''x'']\<rparr>"
    by (simp_all add: eval_defs)
  have "\<exists>w2 out2. ulca_api down_ENGINE ?w1 ?d = (w2, Inr (200, Output out2))
         \<and> length out2 = length ?out
         \<and> (\<forall>i < length ?out. \<exists>c cs. target (?out ! i) = Some (c # cs)
               \<and> target (out2 ! i) = Some [c])
         \<and> engine_calls w2 = engine_calls ?w1 \<and> kv w2 = kv ?w1"
    using cached_batch_repeats [where E = demo_ENGINE and w0 = empty_world and d = ?d
      and ?w1.0 = ?w1 and out = ?out and ?cfg0.0 = ?cfg and ?E2.0 = down_ENGINE,
      THEN conjunct2] first h(1-3)
    by (rule_tac mp) blast+
  then obtain w2 out2 where second: "ulca_api down_ENGINE ?w1 ?d = (w2, Inr (200, Output out2))"
    and len: "length out2 = length ?out"
    and tops: "\<forall>i < length ?out. \<exists>c cs. target (?out ! i) = Some (c # cs)
               \<and> target (out2 ! i) = Some [c]"
    by blast
  from tops have "0 < length ?out \<longrightarrow>
      (\<exists>c cs. target (?out ! 0) = Some (c # cs) \<and> target (out2 ! 0) = Some [c])"
    and "1 < length ?out \<longrightarrow>
      (\<exists>c cs. target (?out ! 1) = Some (c # cs) \<and> target (out2 ! 1) = Some [c])"
    by blast+
  then have t: "target (out2 ! 0) = Some [str ''amma1'']" "target (out2 ! 1) = Some [str ''ravi1'']"
    by simp_all
  have hit2: "snd (ulca_item down_ENGINE ?cfg ?wh (mk_item (str ''amma''))) =
      Inr \<lparr>source = str ''amma'', target = Some [str ''x'']\<rparr>"
    using cached_batch_repeats [where E = down_ENGINE and w = ?wh and cfg = ?cfg
        and it = "mk_item (str ''amma'')" and v = "str ''x''"] h
    by simp
  have sup: "str ''hi'' \<in> set (all_supported_langs (en2indic down_ENGINE))"
    "str ''hi'' \<in> set (all_supported_langs (indic2en down_ENGINE))"
    by (simp_all add: eval_defs)
  have ev: "take 70 (str ''amma'') = str ''amma''"
    "translit_word (en2indic down_ENGINE) (str ''amma'') (str ''hi'') 5 (Some False) = Raises"
    "translit_word (indic2en down_ENGINE) (str ''amma'') (str ''hi'') 5 None = Raises"
    "?wh\<lparr>calls := calls ?wh @ [Translit_word En2indic (str ''amma'') (str ''hi'') 5 (Some False)]\<rparr>
      = \<lparr>kv = [cache_key (str ''amma'') (str ''en'') (str ''hi'') \<mapsto> (str ''x'')],
         get_down = False, set_down = False,
         calls = [Translit_word En2indic (str ''amma'') (str ''hi'') 5 (Some False)]\<rparr>"
    "?wh\<lparr>calls := calls ?wh @ [Translit_word Indic2en (str ''amma'') (str ''hi'') 5 None]\<rparr>
      = \<lparr>kv = [cache_key (str ''amma'') (str ''en'') (str ''hi'') \<mapsto> (str ''x'')],
         get_down = False, set_down = False,
         calls = [Translit_word Indic2en (str ''amma'') (str ''hi'') 5 None]\<rparr>"
    by (simp_all add: eval_defs)
  note handlers = cached_batch_repeats [where E = down_ENGINE and lc = "str ''hi''"
      and lr = "str ''hi''" and now = "str ''t''" and wx = ?wh and word = "str ''amma''"
      and ns = None and tn = False, THEN conjunct2, THEN conjunct2]
  have word: "xlit_api down_ENGINE (str ''t'') ?wh (str ''hi'') (str ''amma'') None False =
      (\<lparr>kv = [cache_key (str ''amma'') (str ''en'') (str ''hi'') \<mapsto> (str ''x'')],
        get_down = False, set_down = False,
        calls = [Translit_word En2indic (str ''amma'') (str ''hi'') 5 (Some False)]\<rparr>,
       200,
       \<lparr>success = False, error = str ''Internal crash ;('', at = str ''t +0000 UTC'',
        input = str ''amma'', result = Str []\<rparr>)"
    using handlers [THEN conjunct1] sup(1) ev
    by (simp add: DEFAULT_NUM_SUGGESTIONS_def strip_amma)
  have rev: "reverse_xlit_api down_ENGINE (str ''t'') ?wh (str ''hi'') (str ''amma'') None =
      (\<lparr>kv = [cache_key (str ''amma'') (str ''en'') (str ''hi'') \<mapsto> (str ''x'')],
        get_down = False, set_down = False,
        calls = [Translit_word Indic2en (str ''amma'') (str ''hi'') 5 None]\<rparr>,
       200,
       \<lparr>success = False, error = str ''Internal crash ;('', at = str ''t +0000 UTC'',
        input = str ''amma'', result = Str []\<rparr>)"
    using handlers [THEN conjunct2, THEN conjunct1] sup(2) ev
    by (simp add: DEFAULT_NUM_SUGGESTIONS_def strip_amma)
  from second len t res h hit2 sup word rev show ?thesis by auto
qed

section \<open>Repeated batch calls\<close>

lemma ulca_item_kv_other:
  "ulca_item E cfg w it = (w1, r) \<Longrightarrow> k \<noteq> item_key cfg it \<Longrightarrow> kv w1 k = kv w k"
  by (auto simp: ulca_item_def redis_get_def redis_set_def call_translit_word_def
      call_translit_sentence_def Let_def
      split: if_splits option.splits engine_result.splits list.splits)

lemma ulca_item_miss_word_result:
  "ulca_item E cfg w it = (w1, Inr it') \<Longrightarrow> \<not> get_down w \<Longrightarrow> \<not> is_sentence cfg \<Longrightarrow>
   kv w (item_key cfg it) = None \<Longrightarrow>
   \<exists>c cs. translit_word (engine_of E (engine cfg)) (take 32 (source it)) (lang_code cfg)
            (num_suggestions cfg) None = Returns (c # cs)
     \<and> it' = it\<lparr>source := take 32 (source it), target := Some (c # cs)\<rparr>"
  by (auto simp: ulca_item_def redis_get_def redis_set_def call_translit_word_def
      call_translit_sentence_def Let_def
      split: if_splits option.splits engine_result.splits list.splits)


text \<open>
  In a run of the loop that returns, every item is answered by the loop body in a state
  that differs from the first one only under the keys of the items before it.
\<close>

lemma ulca_loop_item_at:
  "ulca_loop E cfg w items = (w', Inr out) \<Longrightarrow> \<not> get_down w \<Longrightarrow> i < length items \<Longrightarrow>
   \<exists>wi wi'. ulca_item E cfg wi (items ! i) = (wi', Inr (out ! i)) \<and> \<not> get_down wi
     \<and> (\<forall>k. (\<forall>j < i. k \<noteq> item_key cfg (items ! j)) \<longrightarrow> kv wi k = kv w k)"
proof (induction items arbitrary: w out i)
  case Nil
  then show ?case by simp
next
  case (Cons it items)
  from Cons.prems(1) obtain w1 it' out' where one: "ulca_item E cfg w it = (w1, Inr it')"
    and rest: "ulca_loop E cfg w1 items = (w', Inr out')" and out: "out = it' # out'"
    by (rule ulca_loop_Cons_Inr)
  show ?case
  proof (cases i)
    case 0
    with one out Cons.prems(2) show ?thesis by auto
  next
    case (Suc n)
    with Cons.prems(3) have n: "n < length items" by simp
    have up1: "\<not> get_down w1"
      using ulca_item_flags [OF one] Cons.prems(2) by simp
    from Cons.IH [OF rest up1 n] obtain wi wi' where
      run: "ulca_item E cfg wi (items ! n) = (wi', Inr (out' ! n))" and up: "\<not> get_down wi"
      and same: "\<forall>k. (\<forall>j < n. k \<noteq> item_key cfg (items ! j)) \<longrightarrow> kv wi k = kv w1 k"
      by blast
    have "kv wi k = kv w k" if k: "\<forall>j < Suc n. k \<noteq> item_key cfg ((it # items) ! j)" for k
    proof -
      from k have "k \<noteq> item_key cfg it" by auto
      then have 1: "kv w1 k = kv w k"
        using ulca_item_kv_other [OF one] by simp
      from k have "\<forall>j < n. k \<noteq> item_key cfg (items ! j)" by auto
      with same 1 show ?thesis by simp
    qed
    with run up Suc out show ?thesis by auto
  qed
qed

lemma ulca_api_miss_word:
  assumes run: "ulca_api E w0 d = (w1, Inr (200, Output out))" and up: "\<not> get_down w0"
    and d: "data_input d = Some items" "data_config d = Some cfg"
    and mode: "\<not> is_sentence cfg" "numSuggestions cfg = Some k"
    and i: "i < length items" and miss: "kv w0 (item_key cfg (items ! i)) = None"
    and first: "\<forall>j < i. item_key cfg (items ! j) \<noteq> item_key cfg (items ! i)"
  shows "\<exists>c cs. translit_word (engine_of E (engine cfg)) (take 32 (source (items ! i)))
            (lang_code cfg) k None = Returns (c # cs)
     \<and> out ! i = (items ! i)\<lparr>source := take 32 (source (items ! i)), target := Some (c # cs)\<rparr>
     \<and> kv w1 (item_key cfg (items ! i)) = Some c"
proof -
  from run d have loop: "ulca_loop E cfg w0 items = (w1, Inr out)"
    by (auto elim!: ulca_api_Output)
  from ulca_loop_item_at [OF loop up i] obtain wi wi' where
    item: "ulca_item E cfg wi (items ! i) = (wi', Inr (out ! i))" and upi: "\<not> get_down wi"
    and same: "\<forall>k. (\<forall>j < i. k \<noteq> item_key cfg (items ! j)) \<longrightarrow> kv wi k = kv w0 k"
    by blast
  from same first miss have "kv wi (item_key cfg (items ! i)) = None"
    by (metis (no_types, lifting))
  from ulca_item_miss_word_result [OF item upi mode(1) this] mode
  obtain c cs where c: "translit_word (engine_of E (engine cfg)) (take 32 (source (items ! i)))
            (lang_code cfg) k None = Returns (c # cs)"
    "out ! i = (items ! i)\<lparr>source := take 32 (source (items ! i)), target := Some (c # cs)\<rparr>"
    by (auto simp: num_suggestions_def)
  from ulca_loop_caches [OF loop up i] c(2) have "kv w1 (item_key cfg (items ! i)) = Some c"
    by auto
  with c show ?thesis by blast
qed


lemma ulca_api_kv_mono:
  "ulca_api E w d = (w', r) \<Longrightarrow> kv w \<subseteq>\<^sub>m kv w' \<and> get_down w' = get_down w"
proof -
  assume run: "ulca_api E w d = (w', r)"
  show ?thesis
  proof (cases "\<exists>items cfg. data_input d = Some items \<and> data_config d = Some cfg
      \<and> lang_pair_supported E cfg")
    case True
    then obtain items cfg where d: "data_input d = Some items" "data_config d = Some cfg"
      "lang_pair_supported E cfg" by blast
    obtain w1 r1 where loop: "ulca_loop E cfg w items = (w1, r1)"
      by (cases "ulca_loop E cfg w items")
    with run d have "w' = w1"
      by (auto simp: ulca_api_loop split: sum.splits)
    with ulca_loop_kv_mono [OF loop] ulca_loop_flags [OF loop] show ?thesis by simp
  next
    case False
    with run have "w' = w"
      by (auto simp: ulca_api_def split: option.splits if_splits)
    then show ?thesis by simp
  qed
qed

lemma ulca_api_later_hit:
  assumes first: "ulca_api E w0 d = (w1, Inr (200, Output out))" and up: "\<not> get_down w0"
    and d: "data_input d = Some items" "data_config d = Some cfg0" and i: "i < length items"
    and w': "kv w1 \<subseteq>\<^sub>m kv w'" "\<not> get_down w'"
    and d2: "data_input d2 = Some items2" "data_config d2 = Some cfg2"
    and lang: "language cfg2 = language cfg0"
    and j: "j < length items2" "source (items2 ! j) = source (items ! i)"
    and second: "ulca_api E2 w' d2 = (w2, Inr (200, Output out2))"
  shows "(\<exists>c cs. target (out ! i) = Some (c # cs)
         \<and> out2 ! j = (items2 ! j)\<lparr>target := Some [c]\<rparr>)
      \<and> kv w1 \<subseteq>\<^sub>m kv w2 \<and> \<not> get_down w2"
proof -
  from first d have loop: "ulca_loop E cfg0 w0 items = (w1, Inr out)"
    by (auto elim!: ulca_api_Output)
  from ulca_loop_caches [OF loop up i] obtain c cs where
    c: "target (out ! i) = Some (c # cs)" "kv w1 (item_key cfg0 (items ! i)) = Some c"
    by blast
  from c(2) w'(1) have "kv w' (item_key cfg0 (items ! i)) = Some c"
    by (auto simp: map_le_def dom_def)
  with lang j(2) have hit: "kv w' (item_key cfg2 (items2 ! j)) = Some c"
    by simp
  from second d2 have loop2: "ulca_loop E2 cfg2 w' items2 = (w2, Inr out2)"
    by (auto elim!: ulca_api_Output)
  from ulca_loop_hit_at [OF loop2 w'(2) j(1) hit] c(1)
  have "\<exists>c cs. target (out ! i) = Some (c # cs)
         \<and> out2 ! j = (items2 ! j)\<lparr>target := Some [c]\<rparr>"
    by blast
  moreover from ulca_api_kv_mono [OF second] w' have "kv w1 \<subseteq>\<^sub>m kv w2" "\<not> get_down w2"
    by (auto intro: map_le_trans)
  ultimately show ?thesis by blast
qed

lemma ulca_api_single_hit:
  assumes "data_input d = Some [it]" "data_config d = Some cfg" "lang_pair_supported E cfg"
    and "\<not> get_down w" "kv w (item_key cfg it) = Some v"
  shows "ulca_api E w d =
     (w\<lparr>calls := calls w @ [Redis_get (item_key cfg it)]\<rparr>,
      Inr (200, Output [it\<lparr>target := Some [v]\<rparr>]))"
  using assms by (simp add: ulca_api_loop ulca_item_hit)

lemma ulca_api_single_miss_word:
  assumes "data_input d = Some [it]" "data_config d = Some cfg" "lang_pair_supported E cfg"
    and "\<not> is_sentence cfg" "numSuggestions cfg = Some k"
    and "\<not> get_down w" "\<not> set_down w" "kv w (item_key cfg it) = None"
    and "translit_word (engine_of E (engine cfg)) (take 32 (source it)) (lang_code cfg) k None
           = Returns (c # cs)" "utf8_encodable c"
  shows "ulca_api E w d =
     (w\<lparr>kv := (kv w)(item_key cfg it \<mapsto> c),
        calls := calls w @
          [Redis_get (item_key cfg it),
           Translit_word (engine cfg) (take 32 (source it)) (lang_code cfg) k None,
           Redis_set (item_key cfg it) c]\<rparr>,
      Inr (200, Output [it\<lparr>source := take 32 (source it), target := Some (c # cs)\<rparr>]))"
proof -
  from assms(4,5) have k: "num_suggestions cfg = k"
    by (simp add: num_suggestions_def)
  from ulca_item_miss_word [OF assms(6,4,8) _ assms(7,10), of E cs] assms(9) k assms(1-3)
  show ?thesis by (simp add: ulca_api_loop)
qed

text \<open>
  C10. The claim: after the first call for a triple, every later call with the same
  triple hits the cache and returns exactly one candidate. After a call that returned
  two candidates for \<open>amma\<close> and stored the first, the same call made while the \<open>get\<close>
  raises returns no candidate at all, and made after the entry has left Redis returns
  the two candidates again.
\<close>

theorem later_call_without_cache:
  "snd (ulca_api demo_ENGINE empty_world (batch [str ''amma''] (word_config (Some 2)))) =
     Inr (200, Output [\<lparr>source = str ''amma'', target = Some [str ''amma1'', str ''amma2'']\<rparr>])
   \<and> kv (fst (ulca_api demo_ENGINE empty_world (batch [str ''amma''] (word_config (Some 2)))))
       (cache_key (str ''amma'') (str ''en'') (str ''hi'')) = Some (str ''amma1'')
   \<and> snd (ulca_api demo_ENGINE
            ((fst (ulca_api demo_ENGINE empty_world
                     (batch [str ''amma''] (word_config (Some 2)))))\<lparr>get_down := True\<rparr>)
            (batch [str ''amma''] (word_config (Some 2)))) = Inl ConnectionError
   \<and> snd (ulca_api demo_ENGINE
            ((fst (ulca_api demo_ENGINE empty_world
                     (batch [str ''amma''] (word_config (Some 2)))))\<lparr>kv := kv empty_world\<rparr>)
            (batch [str ''amma''] (word_config (Some 2)))) =
     Inr (200, Output [\<lparr>source = str ''amma'', target = Some [str ''amma1'', str ''amma2'']\<rparr>])"
  by (simp add: eval_defs)

text \<open>
  C10, as the code has it. In word mode with \<open>numSuggestions = k\<close>: a batch of one item
  that misses the cache calls the engine with \<open>topk = k\<close> and answers with the whole list
  the engine returned; in every batch call that returns, an item whose key is neither in
  Redis before the call nor the key of an earlier item carries the engine's list for
  \<open>topk = k\<close>, and its first candidate is stored. After a batch call that returned, in
  every later state that still holds its entries and whose \<open>get\<close> succeeds, a batch call
  with the same language pair that returns gives each item with the source of an item of
  the first call one target only, the first candidate of that call, whatever its mode
  and number of suggestions; the entries are still there afterwards. A batch of one such
  item always returns.
\<close>

theorem first_call_many_then_one:
  "(data_input d = Some [it] \<and> data_config d = Some cfg \<and> lang_pair_supported E cfg
      \<and> \<not> is_sentence cfg \<and> numSuggestions cfg = Some k
      \<and> \<not> get_down w \<and> \<not> set_down w \<and> kv w (item_key cfg it) = None
      \<and> translit_word (engine_of E (engine cfg)) (take 32 (source it)) (lang_code cfg) k None
           = Returns (c # cs) \<and> utf8_encodable c \<longrightarrow>
      ulca_api E w d =
        (w\<lparr>kv := (kv w)(item_key cfg it \<mapsto> c),
           calls := calls w @
             [Redis_get (item_key cfg it),
              Translit_word (engine cfg) (take 32 (source it)) (lang_code cfg) k None,
              Redis_set (item_key cfg it) c]\<rparr>,
         Inr (200, Output [it\<lparr>source := take 32 (source it), target := Some (c # cs)\<rparr>])))
   \<and> (ulca_api E w0 da = (w1, Inr (200, Output out)) \<and> \<not> get_down w0
        \<and> data_input da = Some items \<and> data_config da = Some cfg
        \<and> \<not> is_sentence cfg \<and> numSuggestions cfg = Some k
        \<and> i < length items \<and> kv w0 (item_key cfg (items ! i)) = None
        \<and> (\<forall>j < i. item_key cfg (items ! j) \<noteq> item_key cfg (items ! i)) \<longrightarrow>
      (\<exists>c cs. translit_word (engine_of E (engine cfg)) (take 32 (source (items ! i)))
                 (lang_code cfg) k None = Returns (c # cs)
         \<and> out ! i =
             (items ! i)\<lparr>source := take 32 (source (items ! i)), target := Some (c # cs)\<rparr>
         \<and> kv w1 (item_key cfg (items ! i)) = Some c))
   \<and> (ulca_api E w0 da = (w1, Inr (200, Output out)) \<and> \<not> get_down w0
        \<and> data_input da = Some items \<and> data_config da = Some cfg \<and> i < length items
        \<and> kv w1 \<subseteq>\<^sub>m kv w' \<and> \<not> get_down w'
        \<and> data_input d2 = Some items2 \<and> data_config d2 = Some cfg2
        \<and> language cfg2 = language cfg
        \<and> j < length items2 \<and> source (items2 ! j) = source (items ! i)
        \<and> ulca_api E2 w' d2 = (w2, Inr (200, Output out2)) \<longrightarrow>
      (\<exists>c cs. target (out ! i) = Some (c # cs)
         \<and> out2 ! j = (items2 ! j)\<lparr>target := Some [c]\<rparr>)
      \<and> kv w1 \<subseteq>\<^sub>m kv w2 \<and> \<not> get_down w2)
   \<and> (data_input dh = Some [ith] \<and> data_config dh = Some cfgh \<and> lang_pair_supported E2 cfgh
        \<and> \<not> get_down wh \<and> kv wh (item_key cfgh ith) = Some v \<longrightarrow>
      ulca_api E2 wh dh =
        (wh\<lparr>calls := calls wh @ [Redis_get (item_key cfgh ith)]\<rparr>,
         Inr (200, Output [ith\<lparr>target := Some [v]\<rparr>])))"
  using ulca_api_single_miss_word [where d = d and it = it and cfg = cfg and E = E and k = k
      and w = w and c = c and cs = cs]
    ulca_api_miss_word [where E = E and ?w0.0 = w0 and d = da and ?w1.0 = w1 and out = out
      and items = items and cfg = cfg and k = k and i = i]
    ulca_api_later_hit [where E = E and ?w0.0 = w0 and d = da and ?w1.0 = w1 and out = out
      and items = items and ?cfg0.0 = cfg and i = i and w' = w' and ?d2.0 = d2
      and ?items2.0 = items2 and ?cfg2.0 = cfg2 and j = j and ?E2.0 = E2 and ?w2.0 = w2
      and ?out2.0 = out2]
    ulca_api_single_hit [where d = dh and it = ith and cfg = cfgh and E = E2 and w = wh
      and v = v]
  by blast

theorem first_call_many_then_one_witness:
  "lang_pair_supported demo_ENGINE (word_config (Some 2))
   \<and> lang_pair_supported down_ENGINE (word_config (Some 8))
   \<and> \<not> is_sentence (word_config (Some 2)) \<and> numSuggestions (word_config (Some 2)) = Some 2
   \<and> \<not> get_down empty_world \<and> \<not> set_down empty_world
   \<and> kv empty_world (cache_key (str ''amma'') (str ''en'') (str ''hi'')) = None
   \<and> cache_key (str ''ravi'') (str ''en'') (str ''hi'')
        \<noteq> cache_key (str ''amma'') (str ''en'') (str ''hi'')
   \<and> snd (ulca_api demo_ENGINE empty_world (batch [str ''amma''] (word_config (Some 2)))) =
       Inr (200, Output [\<lparr>source = str ''amma'', target = Some [str ''amma1'', str ''amma2'']\<rparr>])
   \<and> (\<exists>w1 out. ulca_api demo_ENGINE empty_world
                    (batch [str ''ravi'', str ''amma''] (word_config (Some 2)))
                  = (w1, Inr (200, Output out))
         \<and> out ! 1 = \<lparr>source = str ''amma'', target = Some [str ''amma1'', str ''amma2'']\<rparr>
         \<and> kv w1 (cache_key (str ''amma'') (str ''en'') (str ''hi'')) = Some (str ''amma1'')
         \<and> (\<exists>w2 out2. ulca_api demo_ENGINE w1
                          (batch [str ''amma'', str ''kavi''] (word_config (Some 8)))
                        = (w2, Inr (200, Output out2))
               \<and> out2 ! 0 = \<lparr>source = str ''amma'', target = Some [str ''amma1'']\<rparr>)
         \<and> snd (ulca_api down_ENGINE w1 (batch [str ''amma''] (word_config (Some 8)))) =
             Inr (200, Output [\<lparr>source = str ''amma'', target = Some [str ''amma1'']\<rparr>]))"
proof -
  let ?cfg = "word_config (Some 2)" and ?cfg8 = "word_config (Some 8)"
  let ?amma = "mk_item (str ''amma'')" and ?ravi = "mk_item (str ''ravi'')"
  let ?kavi = "mk_item (str ''kavi'')"
  let ?d = "batch [str ''amma''] ?cfg"
  let ?da = "batch [str ''ravi'', str ''amma''] ?cfg"
  let ?d2 = "batch [str ''amma'', str ''kavi''] ?cfg8"
  let ?dh = "batch [str ''amma''] ?cfg8"
  let ?w1 = "fst (ulca_api demo_ENGINE empty_world ?da)"
  let ?key = "cache_key (str ''amma'') (str ''en'') (str ''hi'')"
  have h: "lang_pair_supported demo_ENGINE ?cfg" "lang_pair_supported down_ENGINE ?cfg8"
    "\<not> is_sentence ?cfg" "numSuggestions ?cfg = Some 2"
    "\<not> get_down empty_world" "\<not> set_down empty_world" "kv empty_world ?key = None"
    "cache_key (str ''ravi'') (str ''en'') (str ''hi'') \<noteq> ?key"
    by (simp_all add: eval_defs)
  have g: "data_input ?d = Some [?amma]" "data_config ?d = Some ?cfg"
    "data_input ?da = Some [?ravi, ?amma]" "data_config ?da = Some ?cfg"
    "data_input ?d2 = Some [?amma, ?kavi]" "data_config ?d2 = Some ?cfg8"
    "data_input ?dh = Some [?amma]" "data_config ?dh = Some ?cfg8"
    "language ?cfg8 = language ?cfg"
    "item_key ?cfg ?amma = ?key" "item_key ?cfg8 ?amma = ?key"
    "item_key ?cfg ?ravi = cache_key (str ''ravi'') (str ''en'') (str ''hi'')"
    "source ?amma = str ''amma''" "engine ?cfg = En2indic" "lang_code ?cfg = str ''hi''"
    by (simp_all add: eval_defs)
  have eng: "translit_word (engine_of demo_ENGINE (engine ?cfg)) (take 32 (source ?amma))
      (lang_code ?cfg) 2 None = Returns [str ''amma1'', str ''amma2'']"
    "utf8_encodable (str ''amma1'')"
    by (simp_all add: eval_defs)
  have shape: "?amma\<lparr>source := take 32 (source ?amma),
        target := Some [str ''amma1'', str ''amma2'']\<rparr> =
      \<lparr>source = str ''amma'', target = Some [str ''amma1'', str ''amma2'']\<rparr>"
    "?amma\<lparr>target := Some [str ''amma1'']\<rparr> =
      \<lparr>source = str ''amma'', target = Some [str ''amma1'']\<rparr>"
    by (simp_all add: mk_item_def)
  note single = first_call_many_then_one [where d = ?d and it = ?amma and cfg = ?cfg
      and E = demo_ENGINE and k = 2 and w = empty_world and c = "str ''amma1''"
      and cs = "[str ''amma2'']", THEN conjunct1]
  have one: "snd (ulca_api demo_ENGINE empty_world ?d) =
      Inr (200, Output [\<lparr>source = str ''amma'', target = Some [str ''amma1'', str ''amma2'']\<rparr>])"
    using single h g eng shape by simp
  have "\<exists>w1 out. ulca_api demo_ENGINE empty_world ?da = (w1, Inr (200, Output out))"
    by (simp add: eval_defs)
  then obtain out where first: "ulca_api demo_ENGINE empty_world ?da = (?w1, Inr (200, Output out))"
    by (auto simp: prod_eq_iff)
  note pos = first_call_many_then_one [where E = demo_ENGINE and ?w0.0 = empty_world
      and da = ?da and ?w1.0 = ?w1 and out = out and items = "[?ravi, ?amma]" and cfg = ?cfg
      and k = 2 and i = 1, THEN conjunct2, THEN conjunct1]
  have "\<exists>c cs. translit_word (engine_of demo_ENGINE (engine ?cfg))
                 (take 32 (source ([?ravi, ?amma] ! 1))) (lang_code ?cfg) 2 None = Returns (c # cs)
         \<and> out ! 1 = ([?ravi, ?amma] ! 1)\<lparr>source := take 32 (source ([?ravi, ?amma] ! 1)),
               target := Some (c # cs)\<rparr>
         \<and> kv ?w1 (item_key ?cfg ([?ravi, ?amma] ! 1)) = Some c"
    using pos first h g by (rule_tac mp) simp_all
  then have at1: "out ! 1 = \<lparr>source = str ''amma'', target = Some [str ''amma1'', str ''amma2'']\<rparr>"
    and stored: "kv ?w1 ?key = Some (str ''amma1'')"
    using eng g shape by auto
  have up1: "\<not> get_down ?w1"
    by (simp add: eval_defs)
  have "\<exists>w2 out2. ulca_api demo_ENGINE ?w1 ?d2 = (w2, Inr (200, Output out2))"
    by (simp add: eval_defs)
  then obtain w2 out2 where second: "ulca_api demo_ENGINE ?w1 ?d2 = (w2, Inr (200, Output out2))"
    by blast
  note later = first_call_many_then_one [where E = demo_ENGINE and ?w0.0 = empty_world
      and da = ?da and ?w1.0 = ?w1 and out = out and items = "[?ravi, ?amma]" and cfg = ?cfg
      and i = 1 and w' = ?w1 and ?d2.0 = ?d2 and ?items2.0 = "[?amma, ?kavi]"
      and ?cfg2.0 = ?cfg8 and j = 0 and ?E2.0 = demo_ENGINE and ?w2.0 = w2 and ?out2.0 = out2,
      THEN conjunct2, THEN conjunct2, THEN conjunct1]
  have "(\<exists>c cs. target (out ! 1) = Some (c # cs)
         \<and> out2 ! 0 = ([?amma, ?kavi] ! 0)\<lparr>target := Some [c]\<rparr>)
      \<and> kv ?w1 \<subseteq>\<^sub>m kv w2 \<and> \<not> get_down w2"
    using later first second h(5) g up1 by (rule_tac mp) simp_all
  then have at0: "out2 ! 0 = \<lparr>source = str ''amma'', target = Some [str ''amma1'']\<rparr>"
    using at1 shape by auto
  note hit = first_call_many_then_one [where dh = ?dh and ith = ?amma and cfgh = ?cfg8
      and ?E2.0 = down_ENGINE and wh = ?w1 and v = "str ''amma1''",
      THEN conjunct2, THEN conjunct2, THEN conjunct2]
  have down: "snd (ulca_api down_ENGINE ?w1 ?dh) =
      Inr (200, Output [\<lparr>source = str ''amma'', target = Some [str ''amma1'']\<rparr>])"
    using hit h(2) g up1 stored shape by simp
  from first at1 stored second at0 down
  have "\<exists>w1 out. ulca_api demo_ENGINE empty_world ?da = (w1, Inr (200, Output out))
         \<and> out ! 1 = \<lparr>source = str ''amma'', target = Some [str ''amma1'', str ''amma2'']\<rparr>
         \<and> kv w1 ?key = Some (str ''amma1'')
         \<and> (\<exists>w2 out2. ulca_api demo_ENGINE w1 ?d2 = (w2, Inr (200, Output out2))
               \<and> out2 ! 0 = \<lparr>source = str ''amma'', target = Some [str ''amma1'']\<rparr>)
         \<and> snd (ulca_api down_ENGINE w1 ?dh) =
             Inr (200, Output [\<lparr>source = str ''amma'', target = Some [str ''amma1'']\<rparr>])"
    by blast
  with h one show ?thesis by blast
qed

section \<open>The cache key and the mode\<close>






end
